theory Spec2Isabelle
  imports Complex_Main "HOL-Library.Word" "HOL-Library.Signed_Division"
begin

section \<open>Machine integers of \<^verbatim>\<open>common-whisper.cpp\<close>\<close>

text \<open>
  \<^verbatim>\<open>int64_t\<close> and \<^verbatim>\<open>int\<close> are 64-bit and 32-bit two's complement words. Addition,
  subtraction and multiplication are the word operations, so a signed overflow wraps
  around, as the compiled code does. Values are read with \<^const>\<open>sint\<close>.
\<close>

type_synonym int64_t = "64 word"
type_synonym int32_t = "32 word"

text \<open>The \<^verbatim>\<open>/\<close> of C++ on \<^verbatim>\<open>int64_t\<close>: the quotient truncated towards zero.\<close>

definition i64_div :: "int64_t \<Rightarrow> int64_t \<Rightarrow> int64_t" where
  "i64_div a b = word_of_int (sint a sdiv sint b)"

text \<open>
  Whether the exact product, respectively difference, of two \<^verbatim>\<open>int64_t\<close> values lies
  outside the range of the type, so that the machine result is not the exact one.
\<close>

definition i64_mul_overflows :: "int64_t \<Rightarrow> int64_t \<Rightarrow> bool" where
  "i64_mul_overflows a b \<longleftrightarrow> sint (a * b) \<noteq> sint a * sint b"

definition i64_sub_overflows :: "int64_t \<Rightarrow> int64_t \<Rightarrow> bool" where
  "i64_sub_overflows a b \<longleftrightarrow> sint (a - b) \<noteq> sint a - sint b"

text \<open>
  \<^verbatim>\<open>std::max(a, b)\<close> is \<^verbatim>\<open>(a < b) ? b : a\<close> and \<^verbatim>\<open>std::min(a, b)\<close> is
  \<^verbatim>\<open>(b < a) ? b : a\<close>, with the signed comparison of \<^verbatim>\<open>int\<close>.
\<close>

definition std_max :: "int32_t \<Rightarrow> int32_t \<Rightarrow> int32_t" where
  "std_max a b = (if word_sless a b then b else a)"

definition std_min :: "int32_t \<Rightarrow> int32_t \<Rightarrow> int32_t" where
  "std_min a b = (if word_sless b a then b else a)"

section \<open>Timestamp mapper\<close>

subsection \<open>\<^verbatim>\<open>timestamp_to_sample\<close>\<close>

text \<open>
  \<^verbatim>\<open>return std::max(0, std::min((int) n_samples - 1, (int) ((t*whisper_sample_rate)/100)));\<close>
  The rate is converted to \<^verbatim>\<open>int64_t\<close> (sign extension, \<^const>\<open>scast\<close>) for the product;
  the cast \<^verbatim>\<open>(int)\<close> keeps the low 32 bits (\<^const>\<open>ucast\<close>).
\<close>

definition timestamp_to_sample :: "int64_t \<Rightarrow> int32_t \<Rightarrow> int32_t \<Rightarrow> int32_t" where
  "timestamp_to_sample t n_samples whisper_sample_rate =
     std_max 0 (std_min (n_samples - 1)
       (ucast (i64_div (t * scast whisper_sample_rate) 100)))"

subsection \<open>\<^verbatim>\<open>to_timestamp\<close>\<close>

text \<open>The decimal digits of a natural number, most significant first.\<close>

fun digits :: "nat \<Rightarrow> string" where
  "digits n =
     (if n < 10 then [''0123456789'' ! n]
      else digits (n div 10) @ [''0123456789'' ! (n mod 10)])"

declare digits.simps [simp del]

text \<open>
  The conversion \<^verbatim>\<open>%0<w>d\<close> of \<^verbatim>\<open>printf\<close> for an \<^verbatim>\<open>int\<close>: a minus sign for a negative
  value, then the digits, padded with zeros on the left up to a total width \<open>w\<close>
  (sign included). A longer number is printed in full.
\<close>

definition printf_0d :: "nat \<Rightarrow> int32_t \<Rightarrow> string" where
  "printf_0d w x =
     (let ds = digits (nat \<bar>sint x\<bar>) in
      if sint x < 0 then ''-'' @ replicate (w - 1 - length ds) CHR ''0'' @ ds
      else replicate (w - length ds) CHR ''0'' @ ds)"

text \<open>
  \<^verbatim>\<open>snprintf(buf, n, ...)\<close> stores at most \<open>n - 1\<close> characters of the formatted
  text.
\<close>

definition snprintf :: "nat \<Rightarrow> string \<Rightarrow> string" where
  "snprintf n s = take (n - 1) s"

text \<open>
  The arithmetic of \<^verbatim>\<open>to_timestamp\<close>, statement by statement. \<open>ts_overflow\<close> records
  whether one of the signed operations on \<^verbatim>\<open>int64_t\<close> left the range of the type.
  The constants \<^verbatim>\<open>1000 * 60 * 60\<close> and \<^verbatim>\<open>1000 * 60\<close> are \<^verbatim>\<open>int\<close> products, 3600000 and
  60000.
\<close>

record ts_parts =
  ts_hr :: int64_t
  ts_min :: int64_t
  ts_sec :: int64_t
  ts_msec :: int64_t
  ts_overflow :: bool

definition to_timestamp_parts :: "int64_t \<Rightarrow> ts_parts" where
  "to_timestamp_parts t =
     (let msec0 = t * 10;
          hr = i64_div msec0 3600000;
          msec1 = msec0 - hr * 3600000;
          mn = i64_div msec1 60000;
          msec2 = msec1 - mn * 60000;
          sec = i64_div msec2 1000;
          msec3 = msec2 - sec * 1000
      in \<lparr> ts_hr = hr, ts_min = mn, ts_sec = sec, ts_msec = msec3,
           ts_overflow =
             (i64_mul_overflows t 10
              \<or> i64_mul_overflows hr 3600000 \<or> i64_sub_overflows msec0 (hr * 3600000)
              \<or> i64_mul_overflows mn 60000 \<or> i64_sub_overflows msec1 (mn * 60000)
              \<or> i64_mul_overflows sec 1000 \<or> i64_sub_overflows msec2 (sec * 1000)) \<rparr>)"

definition to_timestamp_overflows :: "int64_t \<Rightarrow> bool" where
  "to_timestamp_overflows t = ts_overflow (to_timestamp_parts t)"

text \<open>
  \<^verbatim>\<open>snprintf(buf, sizeof(buf), "%02d:%02d:%02d%s%03d", (int) hr, (int) min, (int) sec,
  comma ? "," : ".", (int) msec)\<close> with \<^verbatim>\<open>char buf[32]\<close>.
\<close>

definition to_timestamp :: "int64_t \<Rightarrow> bool \<Rightarrow> string" where
  "to_timestamp t comma =
     (let p = to_timestamp_parts t in
      snprintf 32
        (printf_0d 2 (ucast (ts_hr p)) @ '':'' @ printf_0d 2 (ucast (ts_min p)) @ '':''
         @ printf_0d 2 (ucast (ts_sec p)) @ (if comma then '','' else ''.'')
         @ printf_0d 3 (ucast (ts_msec p))))"

section \<open>Samples, vectors and result codes\<close>

text \<open>
  Samples are \<^verbatim>\<open>float\<close>. IEEE arithmetic is not formalised: the sample type is a
  type variable and the operations the code applies to samples (\<^verbatim>\<open>+\<close>, \<^verbatim>\<open>*\<close>, \<^verbatim>\<open>/\<close>
  and literals such as \<^verbatim>\<open>32768.0f\<close>, or the \<^verbatim>\<open>0.0f\<close> of a value-initialised element)
  are taken as they come, with no law assumed about them.
\<close>

record 'a f32_ops =
  f32_add :: "'a \<Rightarrow> 'a \<Rightarrow> 'a"
  f32_mul :: "'a \<Rightarrow> 'a \<Rightarrow> 'a"
  f32_div :: "'a \<Rightarrow> 'a \<Rightarrow> 'a"
  f32_lit :: "int \<Rightarrow> 'a"

text \<open>
  \<^verbatim>\<open>std::vector::resize(n)\<close>: the first \<open>n\<close> elements are kept and the vector is
  filled up to length \<open>n\<close> with value-initialised elements \<open>z\<close>.
\<close>

definition resize :: "'a \<Rightarrow> 'a list \<Rightarrow> nat \<Rightarrow> 'a list" where
  "resize z v n = take n v @ replicate (n - length v) z"

text \<open>
  An external routine that is handed \<^verbatim>\<open>v.data()\<close> stores its output \<open>ws\<close> from the
  start of the buffer and leaves the rest as it was. The routines used here are
  told the capacity of the buffer and never store beyond it.
\<close>

definition store :: "'a list \<Rightarrow> 'a list \<Rightarrow> 'a list" where
  "store buf ws = take (length buf) ws @ drop (length ws) buf"

text \<open>The result codes of miniaudio: \<^verbatim>\<open>MA_SUCCESS\<close> and the error codes.\<close>

datatype ma_result = MA_SUCCESS | MA_ERROR int

text \<open>
  \<^verbatim>\<open>WHISPER_SAMPLE_RATE\<close> is declared in \<^verbatim>\<open>whisper.h\<close>, outside these sources; its value
  is the one the comment of line 30 gives (\<^verbatim>\<open>// Whisper uses 16kHz\<close>), and no statement
  below depends on it. The other two are the constants of lines 31 and 32.
\<close>

definition WHISPER_SAMPLE_RATE :: nat where
  "WHISPER_SAMPLE_RATE = 16000"

definition RNNOISE_SAMPLE_RATE :: nat where
  "RNNOISE_SAMPLE_RATE = 48000"

definition RNNOISE_FRAME_SIZE :: nat where
  "RNNOISE_FRAME_SIZE = 480"

section \<open>Resampler lifecycle and sample-rate conversion\<close>

text \<open>
  \<^verbatim>\<open>ma_linear_resampler_config_init(ma_format_f32, 1, rateIn, rateOut)\<close> followed by
  \<^verbatim>\<open>config.lpfOrder = 4\<close>. The sample format is \<^verbatim>\<open>ma_format_f32\<close> throughout.
\<close>

record ma_linear_resampler_config =
  channels :: nat
  sampleRateIn :: nat
  sampleRateOut :: nat
  lpfOrder :: nat

text \<open>
  The linear resampler of miniaudio is an external capability. \<open>'r\<close> is the state
  of one \<^verbatim>\<open>ma_linear_resampler\<close> object. Each routine takes the object and returns
  its new state; \<^verbatim>\<open>process_pcm_frames\<close> takes the input samples and the capacity of
  the output buffer and returns the samples it stored and the number of output
  frames it reports.
\<close>

record ('r, 'a) resampler_api =
  ma_linear_resampler_init :: "ma_linear_resampler_config \<Rightarrow> 'r \<Rightarrow> ma_result \<times> 'r"
  ma_linear_resampler_uninit :: "'r \<Rightarrow> 'r"
  ma_linear_resampler_reset :: "'r \<Rightarrow> 'r"
  ma_linear_resampler_get_expected_output_frame_count :: "'r \<Rightarrow> nat \<Rightarrow> nat"
  ma_linear_resampler_process_pcm_frames :: "'r \<Rightarrow> 'a list \<Rightarrow> nat \<Rightarrow> 'r \<times> 'a list \<times> nat"

text \<open>The three file-level variables of lines 35 to 37.\<close>

record 'r globals =
  g_resampler_16k_to_48k :: 'r
  g_resampler_48k_to_16k :: 'r
  g_resamplers_initialized :: bool

text \<open>\<^verbatim>\<open>init_resamplers\<close> returns its \<^verbatim>\<open>bool\<close> and the new contents of the variables.\<close>

definition init_resamplers :: "('r, 'a) resampler_api \<Rightarrow> 'r globals \<Rightarrow> bool \<times> 'r globals" where
  "init_resamplers api g =
     (if g_resamplers_initialized g then (True, g)
      else
        let config_up = \<lparr> channels = 1, sampleRateIn = WHISPER_SAMPLE_RATE,
                          sampleRateOut = RNNOISE_SAMPLE_RATE, lpfOrder = 4 \<rparr>;
            up = ma_linear_resampler_init api config_up (g_resampler_16k_to_48k g);
            g1 = g \<lparr> g_resampler_16k_to_48k := snd up \<rparr>
        in if fst up \<noteq> MA_SUCCESS then (False, g1)
           else
             let config_down = \<lparr> channels = 1, sampleRateIn = RNNOISE_SAMPLE_RATE,
                                 sampleRateOut = WHISPER_SAMPLE_RATE, lpfOrder = 4 \<rparr>;
                 down = ma_linear_resampler_init api config_down (g_resampler_48k_to_16k g1);
                 g2 = g1 \<lparr> g_resampler_48k_to_16k := snd down \<rparr>
             in if fst down \<noteq> MA_SUCCESS
                then (False, g2 \<lparr> g_resampler_16k_to_48k :=
                                    ma_linear_resampler_uninit api (g_resampler_16k_to_48k g2) \<rparr>)
                else (True, g2 \<lparr> g_resamplers_initialized := True \<rparr>))"

definition uninit_resamplers :: "('r, 'a) resampler_api \<Rightarrow> 'r globals \<Rightarrow> 'r globals" where
  "uninit_resamplers api g =
     (if \<not> g_resamplers_initialized g then g
      else g \<lparr> g_resampler_16k_to_48k := ma_linear_resampler_uninit api (g_resampler_16k_to_48k g),
               g_resampler_48k_to_16k := ma_linear_resampler_uninit api (g_resampler_48k_to_16k g),
               g_resamplers_initialized := False \<rparr>)"

text \<open>
  \<^verbatim>\<open>resample_audio(resampler, input)\<close>. The resampler is passed by reference, so the
  model returns its new state beside the output vector; \<open>initialized\<close> is the value
  of \<^verbatim>\<open>g_resamplers_initialized\<close> at the call. The result codes of the three
  miniaudio calls are ignored by the code.
\<close>

definition resample_audio ::
  "('r, 'a) resampler_api \<Rightarrow> 'a f32_ops \<Rightarrow> bool \<Rightarrow> 'r \<Rightarrow> 'a list \<Rightarrow> 'r \<times> 'a list" where
  "resample_audio api F initialized resampler input =
     (if input = [] \<or> \<not> initialized then (resampler, input)
      else
        let r1 = ma_linear_resampler_reset api resampler;
            input_frames = length input;
            output_frames = ma_linear_resampler_get_expected_output_frame_count api r1 input_frames;
            output = replicate output_frames (f32_lit F 0);
            (r2, written, output_frames) =
               ma_linear_resampler_process_pcm_frames api r1 input output_frames;
            output = store output written
        in (r2, resize (f32_lit F 0) output output_frames))"

section \<open>Frame denoiser\<close>

text \<open>
  \<^verbatim>\<open>rnnoise_process_frame(st, frame.data(), frame.data())\<close> is an external capability
  \<open>rn\<close>: from the denoiser state and the frame it yields the new state and the
  samples it stores into the frame, which it transforms in place.
\<close>

definition rnnoise_process_frame ::
  "('st \<Rightarrow> 'a list \<Rightarrow> 'st \<times> 'a list) \<Rightarrow> 'st \<Rightarrow> 'a list \<Rightarrow> 'st \<times> 'a list" where
  "rnnoise_process_frame rn st frame = (let (st', out) = rn st frame in (st', store frame out))"

text \<open>The first inner loop: \<^verbatim>\<open>frame[j] = pcmf32_48k[i + j] * 32768.0f\<close>.\<close>

definition scale_frame :: "'a f32_ops \<Rightarrow> 'a list \<Rightarrow> nat \<Rightarrow> 'a list \<Rightarrow> 'a list" where
  "scale_frame F pcmf32_48k i frame =
     fold (\<lambda>j fr. fr[j := f32_mul F (pcmf32_48k ! (i + j)) (f32_lit F 32768)])
       [0..<RNNOISE_FRAME_SIZE] frame"

text \<open>The second inner loop: \<^verbatim>\<open>pcmf32_48k[i + j] = frame[j] / 32768.0f\<close>.\<close>

definition copy_back :: "'a f32_ops \<Rightarrow> 'a list \<Rightarrow> nat \<Rightarrow> 'a list \<Rightarrow> 'a list" where
  "copy_back F frame i pcmf32_48k =
     fold (\<lambda>j buf. buf[i + j := f32_div F (frame ! j) (f32_lit F 32768)])
       [0..<RNNOISE_FRAME_SIZE] pcmf32_48k"

text \<open>
  The outer loop of lines 108 to 121, from index \<open>i\<close> on. The vector \<open>frame\<close> lives
  outside the loop and is reused by every round.
\<close>

function frame_loop ::
  "'a f32_ops \<Rightarrow> ('st \<Rightarrow> 'a list \<Rightarrow> 'st \<times> 'a list) \<Rightarrow> 'st \<Rightarrow> nat \<Rightarrow> 'a list \<Rightarrow> 'a list
    \<Rightarrow> 'st \<times> 'a list" where
  "frame_loop F rn st i pcmf32_48k frame =
     (if i + RNNOISE_FRAME_SIZE \<le> length pcmf32_48k then
        (let frame1 = scale_frame F pcmf32_48k i frame;
             r = rnnoise_process_frame rn st frame1;
             buf1 = copy_back F (snd r) i pcmf32_48k
         in frame_loop F rn (fst r) (i + RNNOISE_FRAME_SIZE) buf1 (snd r))
      else (st, pcmf32_48k))"
  by pat_completeness auto
termination
proof (relation "measure (\<lambda>(F, rn, st, i, buf, frame). length buf - i)")
  show "wf (measure (\<lambda>(F, rn, st, i, buf, frame). length buf - i))"
    by simp
next
  fix F :: "'a f32_ops" and rn :: "'st \<Rightarrow> 'a list \<Rightarrow> 'st \<times> 'a list"
    and st :: 'st and i :: nat and pcmf32_48k frame frame1 :: "'a list"
    and r :: "'st \<times> 'a list" and buf1 :: "'a list"
  assume bound: "i + RNNOISE_FRAME_SIZE \<le> length pcmf32_48k"
    and buf1: "buf1 = copy_back F (snd r) i pcmf32_48k"
  have "length (fold (\<lambda>j buf. buf[i + j := h j]) js b) = length b" for h js and b :: "'a list"
    by (induction js arbitrary: b) simp_all
  then have "length buf1 = length pcmf32_48k"
    by (simp add: buf1 copy_back_def)
  with bound show "((F, rn, fst r, i + RNNOISE_FRAME_SIZE, buf1, snd r),
      (F, rn, st, i, pcmf32_48k, frame)) \<in> measure (\<lambda>(F, rn, st, i, buf, frame). length buf - i)"
    by (simp add: RNNOISE_FRAME_SIZE_def)
qed

declare frame_loop.simps [simp del]

text \<open>Lines 106 to 121: the frame vector is created with 480 zeros, the loop starts at 0.\<close>

definition denoise_frames ::
  "'a f32_ops \<Rightarrow> ('st \<Rightarrow> 'a list \<Rightarrow> 'st \<times> 'a list) \<Rightarrow> 'st \<Rightarrow> 'a list \<Rightarrow> 'st \<times> 'a list" where
  "denoise_frames F rn st pcmf32_48k =
     frame_loop F rn st 0 pcmf32_48k (replicate RNNOISE_FRAME_SIZE (f32_lit F 0))"

text \<open>
  \<^verbatim>\<open>denoise_audio(st, pcmf32)\<close>. It returns the file-level variables (the two
  resamplers are used through references), the denoiser state and the new \<open>pcmf32\<close>.
\<close>

definition denoise_audio ::
  "('r, 'a) resampler_api \<Rightarrow> 'a f32_ops \<Rightarrow> ('st \<Rightarrow> 'a list \<Rightarrow> 'st \<times> 'a list) \<Rightarrow> 'r globals
    \<Rightarrow> 'st \<Rightarrow> 'a list \<Rightarrow> 'r globals \<times> 'st \<times> 'a list" where
  "denoise_audio api F rn g st pcmf32 =
     (if pcmf32 = [] then (g, st, pcmf32)
      else
        let (r_up, pcmf32_48k) =
              resample_audio api F (g_resamplers_initialized g) (g_resampler_16k_to_48k g) pcmf32;
            g1 = g \<lparr> g_resampler_16k_to_48k := r_up \<rparr>;
            (st1, pcmf32_48k) = denoise_frames F rn st pcmf32_48k;
            (r_down, pcmf32) =
              resample_audio api F (g_resamplers_initialized g1) (g_resampler_48k_to_16k g1)
                pcmf32_48k
        in (g1 \<lparr> g_resampler_48k_to_16k := r_down \<rparr>, st1, pcmf32))"

text \<open>The buffer \<^verbatim>\<open>pcmf32_48k\<close> that line 103 of \<^verbatim>\<open>denoise_audio\<close> computes.\<close>

definition upsampled :: "('r, 'a) resampler_api \<Rightarrow> 'a f32_ops \<Rightarrow> 'r globals \<Rightarrow> 'a list \<Rightarrow> 'a list" where
  "upsampled api F g pcmf32 =
     snd (resample_audio api F (g_resamplers_initialized g) (g_resampler_16k_to_48k g) pcmf32)"

text \<open>
  An observer of the denoising capability: it behaves as \<open>rn\<close> and appends to a log
  each frame it is handed, with the samples \<open>rn\<close> stored for it.
\<close>

definition logged ::
  "('st \<Rightarrow> 'a list \<Rightarrow> 'st \<times> 'a list)
    \<Rightarrow> 'st \<times> ('a list \<times> 'a list) list \<Rightarrow> 'a list \<Rightarrow> ('st \<times> ('a list \<times> 'a list) list) \<times> 'a list" where
  "logged rn = (\<lambda>(st, log) frame.
      let (st', out) = rn st frame in ((st', log @ [(frame, out)]), out))"

text \<open>
  The frame loop in the words of the specification: as long as a full frame of 480
  samples is left, the frame is scaled by 32768, handed to the capability, scaled
  back, and the rest of the buffer is treated likewise; a shorter rest is returned
  as it is.
\<close>

function process_frames ::
  "'a f32_ops \<Rightarrow> ('st \<Rightarrow> 'a list \<Rightarrow> 'st \<times> 'a list) \<Rightarrow> 'st \<Rightarrow> 'a list \<Rightarrow> 'st \<times> 'a list" where
  "process_frames F rn st xs =
     (if length xs < RNNOISE_FRAME_SIZE then (st, xs)
      else
        let r = rnnoise_process_frame rn st
                  (map (\<lambda>x. f32_mul F x (f32_lit F 32768)) (take RNNOISE_FRAME_SIZE xs));
            rest = process_frames F rn (fst r) (drop RNNOISE_FRAME_SIZE xs)
        in (fst rest, map (\<lambda>y. f32_div F y (f32_lit F 32768)) (snd r) @ snd rest))"
  by pat_completeness auto
termination
  by (relation "measure (\<lambda>(F, rn, st, xs). length xs)") (auto simp: RNNOISE_FRAME_SIZE_def)

declare process_frames.simps [simp del]

text \<open>
  The full frames of a buffer, consecutive and non-overlapping, and the trailing
  partial frame that is left when the length is not a multiple of 480.
\<close>

definition full_frames :: "'a list \<Rightarrow> 'a list list" where
  "full_frames xs =
     map (\<lambda>k. take RNNOISE_FRAME_SIZE (drop (RNNOISE_FRAME_SIZE * k) xs))
       [0..<length xs div RNNOISE_FRAME_SIZE]"

definition partial_frame :: "'a list \<Rightarrow> 'a list" where
  "partial_frame xs = drop (RNNOISE_FRAME_SIZE * (length xs div RNNOISE_FRAME_SIZE)) xs"

text \<open>
  What the second inner loop writes for a logged call: the frame as the capability
  left it, divided by 32768.
\<close>

definition scaled_back :: "'a f32_ops \<Rightarrow> 'a list \<times> 'a list \<Rightarrow> 'a list" where
  "scaled_back F = (\<lambda>(frame, out). map (\<lambda>y. f32_div F y (f32_lit F 32768)) (store frame out))"

section \<open>Decode adapter\<close>

text \<open>
  \<^verbatim>\<open>ma_decoder_config_init(ma_format_f32, stereo ? 2 : 1, WHISPER_SAMPLE_RATE)\<close>: the
  output format asked of the decoder.
\<close>

record ma_decoder_config =
  cfg_channels :: nat
  cfg_sampleRate :: nat

text \<open>
  An opened \<^verbatim>\<open>ma_decoder\<close>, as far as \<^verbatim>\<open>read_audio_data\<close> uses it: the length query
  yields a result code and the value stored in \<^verbatim>\<open>frame_count\<close>; reading \<open>n\<close> frames
  yields a result code, the interleaved samples stored in the output buffer, and
  the value stored in \<^verbatim>\<open>frames_read\<close>.
\<close>

record 'a ma_decoder =
  ma_decoder_get_length_in_pcm_frames :: "ma_result \<times> nat"
  ma_decoder_read_pcm_frames :: "nat \<Rightarrow> ma_result \<times> 'a list \<times> nat"

text \<open>
  What the function reaches outside itself: the bytes waiting on standard input,
  the two ways of opening a decoder, and the transcoder \<^verbatim>\<open>ffmpeg_decode_audio\<close>,
  which exists when the build defines \<^verbatim>\<open>WHISPER_FFMPEG\<close>; it yields its return value
  and the bytes it stored in \<^verbatim>\<open>audio_data\<close>.
\<close>

record 'a audio_io =
  stdin_bytes :: "8 word list"
  ma_decoder_init_file :: "string \<Rightarrow> ma_decoder_config \<Rightarrow> ma_result \<times> 'a ma_decoder"
  ma_decoder_init_memory :: "8 word list \<Rightarrow> ma_decoder_config \<Rightarrow> ma_result \<times> 'a ma_decoder"
  WHISPER_FFMPEG :: bool
  ffmpeg_decode_audio :: "string \<Rightarrow> bool \<times> 8 word list"

text \<open>Each early \<^verbatim>\<open>return false\<close>, named after the diagnostic printed before it.\<close>

datatype audio_error =
    StdinOpenFailed ma_result
  | FfmpegDecodeFailed
  | ReadAsWavFailed ma_result
  | LengthFailed ma_result
  | ReadFramesFailed ma_result

text \<open>
  The loop of lines 155 to 162: \<^verbatim>\<open>fread\<close> delivers up to 1024 bytes at a time and the
  loop ends when it delivers none.
\<close>

function read_stdin :: "8 word list \<Rightarrow> 8 word list \<Rightarrow> 8 word list" where
  "read_stdin input audio_data =
     (let buf = take 1024 input; n = length buf in
      if n = 0 then audio_data
      else read_stdin (drop 1024 input) (audio_data @ buf))"
  by pat_completeness auto
termination
  by (relation "measure (\<lambda>(input, audio_data). length input)") auto

declare read_stdin.simps [simp del]

text \<open>Lines 147 to 193: the decoder is opened, or the function returns false.\<close>

definition open_decoder :: "'a audio_io \<Rightarrow> string \<Rightarrow> bool \<Rightarrow> audio_error + 'a ma_decoder" where
  "open_decoder io fname stereo =
     (let decoder_config = \<lparr> cfg_channels = (if stereo then 2 else 1),
                               cfg_sampleRate = WHISPER_SAMPLE_RATE \<rparr>
      in if fname = ''-'' then
           (let audio_data = read_stdin (stdin_bytes io) [];
                r = ma_decoder_init_memory io audio_data decoder_config
            in if fst r \<noteq> MA_SUCCESS then Inl (StdinOpenFailed (fst r)) else Inr (snd r))
         else
           (let r = ma_decoder_init_file io fname decoder_config
            in if fst r \<noteq> MA_SUCCESS then
                 (if WHISPER_FFMPEG io then
                    (let t = ffmpeg_decode_audio io fname
                     in if fst t \<noteq> False then Inl FfmpegDecodeFailed
                        else
                          (let m = ma_decoder_init_memory io (snd t) decoder_config
                           in if fst m \<noteq> MA_SUCCESS then Inl (ReadAsWavFailed (fst m))
                              else Inr (snd m)))
                  else
                    (let m = ma_decoder_init_memory io (map of_char fname) decoder_config
                     in if fst m \<noteq> MA_SUCCESS then Inl (ReadAsWavFailed (fst m))
                        else Inr (snd m)))
               else Inr (snd r)))"

text \<open>
  The two loops of the stereo branch, lines 216 to 218 and 223 to 226.
\<close>

definition sum_channels :: "'a f32_ops \<Rightarrow> 'a list \<Rightarrow> nat \<Rightarrow> 'a list \<Rightarrow> 'a list" where
  "sum_channels F stereo_data frame_count pcmf32 =
     fold (\<lambda>i v. v[i := f32_add F (stereo_data ! (2 * i)) (stereo_data ! (2 * i + 1))])
       [0..<frame_count] pcmf32"

definition split_channels :: "'a list \<Rightarrow> nat \<Rightarrow> 'a list list \<Rightarrow> 'a list list" where
  "split_channels stereo_data frame_count pcmf32s =
     fold (\<lambda>i s. let s1 = s[0 := (s ! 0)[i := stereo_data ! (2 * i)]]
                 in s1[1 := (s1 ! 1)[i := stereo_data ! (2 * i + 1)]])
       [0..<frame_count] pcmf32s"

text \<open>
  The outcome of \<^verbatim>\<open>read_audio_data\<close>: the reason of a \<^verbatim>\<open>return false\<close> (\<open>None\<close> when
  the function returns true) and the contents of the two vectors passed by reference.
\<close>

record 'a audio_result =
  rad_error :: "audio_error option"
  rad_pcmf32 :: "'a list"
  rad_pcmf32s :: "'a list list"

text \<open>
  Lines 195 to 231, on an opened decoder. \<^verbatim>\<open>frame_count\<close> is a natural number: a
  vector cannot hold \<open>2\<^sup>6\<^sup>3\<close> samples, so \<^verbatim>\<open>frame_count*2\<close> does not wrap on a run
  that gets through the \<^verbatim>\<open>resize\<close> calls.
\<close>

definition decode_frames ::
  "'a f32_ops \<Rightarrow> 'a ma_decoder \<Rightarrow> 'a list \<Rightarrow> 'a list list \<Rightarrow> bool \<Rightarrow> 'a audio_result" where
  "decode_frames F decoder pcmf32 pcmf32s stereo =
     (let len = ma_decoder_get_length_in_pcm_frames decoder;
          frame_count = snd len
      in if fst len \<noteq> MA_SUCCESS
         then \<lparr> rad_error = Some (LengthFailed (fst len)), rad_pcmf32 = pcmf32,
                rad_pcmf32s = pcmf32s \<rparr>
         else
           let pcmf32_1 = resize (f32_lit F 0) pcmf32
                            (if stereo then frame_count * 2 else frame_count);
               (result, written, frames_read) = ma_decoder_read_pcm_frames decoder frame_count;
               pcmf32_2 = store pcmf32_1 written
           in if result \<noteq> MA_SUCCESS
              then \<lparr> rad_error = Some (ReadFramesFailed result), rad_pcmf32 = pcmf32_2,
                     rad_pcmf32s = pcmf32s \<rparr>
              else if stereo then
                (let stereo_data = pcmf32_2;
                     pcmf32_3 = resize (f32_lit F 0) pcmf32_2 frame_count;
                     pcmf32_4 = sum_channels F stereo_data frame_count pcmf32_3;
                     s1 = resize [] pcmf32s 2;
                     s2 = s1[0 := resize (f32_lit F 0) (s1 ! 0) frame_count];
                     s3 = s2[1 := resize (f32_lit F 0) (s2 ! 1) frame_count];
                     s4 = split_channels stereo_data frame_count s3
                 in \<lparr> rad_error = None, rad_pcmf32 = pcmf32_4, rad_pcmf32s = s4 \<rparr>)
              else \<lparr> rad_error = None, rad_pcmf32 = pcmf32_2, rad_pcmf32s = pcmf32s \<rparr>)"

text \<open>
  \<^verbatim>\<open>read_audio_data(fname, pcmf32, pcmf32s, stereo)\<close>. The interleaved buffer of a
  successful stereo read is named \<open>stereo_buffer\<close> for the statements below.
\<close>

definition read_audio_data ::
  "'a f32_ops \<Rightarrow> 'a audio_io \<Rightarrow> string \<Rightarrow> 'a list \<Rightarrow> 'a list list \<Rightarrow> bool \<Rightarrow> 'a audio_result" where
  "read_audio_data F io fname pcmf32 pcmf32s stereo =
     (case open_decoder io fname stereo of
        Inl e \<Rightarrow> \<lparr> rad_error = Some e, rad_pcmf32 = pcmf32, rad_pcmf32s = pcmf32s \<rparr>
      | Inr decoder \<Rightarrow> decode_frames F decoder pcmf32 pcmf32s stereo)"

definition stereo_buffer :: "'a f32_ops \<Rightarrow> 'a ma_decoder \<Rightarrow> 'a list \<Rightarrow> 'a list" where
  "stereo_buffer F decoder pcmf32 =
     (let frame_count = snd (ma_decoder_get_length_in_pcm_frames decoder)
      in store (resize (f32_lit F 0) pcmf32 (frame_count * 2))
           (fst (snd (ma_decoder_read_pcm_frames decoder frame_count))))"

section \<open>Example environments\<close>

text \<open>Exact arithmetic on the reals standing in for the samples of the examples.\<close>

definition real_ops :: "real f32_ops" where
  "real_ops = \<lparr> f32_add = (+), f32_mul = (*), f32_div = (/), f32_lit = of_int \<rparr>"

text \<open>
  A decoder opened on a source of the given frames (one sample list per frame) for
  \<open>ch\<close> output channels. A mono frame is copied to each output channel; a frame with
  enough channels keeps its first \<open>ch\<close> samples.
\<close>

definition frames_decoder :: "real list list \<Rightarrow> nat \<Rightarrow> real ma_decoder" where
  "frames_decoder frames ch =
     \<lparr> ma_decoder_get_length_in_pcm_frames = (MA_SUCCESS, length frames),
       ma_decoder_read_pcm_frames = (\<lambda>n.
         (MA_SUCCESS,
          concat (map (\<lambda>fr. if length fr = 1 then replicate ch (hd fr) else take ch fr)
                    (take n frames)),
          min n (length frames))) \<rparr>"

text \<open>Every path names a file with these frames; nothing waits on standard input.\<close>

definition file_io :: "real list list \<Rightarrow> real audio_io" where
  "file_io frames =
     \<lparr> stdin_bytes = [],
       ma_decoder_init_file = (\<lambda>path cfg. (MA_SUCCESS, frames_decoder frames (cfg_channels cfg))),
       ma_decoder_init_memory = (\<lambda>bytes cfg. (MA_ERROR (- 1), frames_decoder [] 1)),
       WHISPER_FFMPEG = False,
       ffmpeg_decode_audio = (\<lambda>path. (True, [])) \<rparr>"

text \<open>
  A file whose header announces four mono frames while only two can be read: the
  length query stores 4, the read stores two samples and reports two frames. The
  result codes of the two calls are parameters.
\<close>

definition short_decoder :: "ma_result \<Rightarrow> ma_result \<Rightarrow> real ma_decoder" where
  "short_decoder length_result read_result =
     \<lparr> ma_decoder_get_length_in_pcm_frames = (length_result, 4),
       ma_decoder_read_pcm_frames = (\<lambda>n. (read_result, [1, 2], 2)) \<rparr>"

definition short_io :: "ma_result \<Rightarrow> ma_result \<Rightarrow> real audio_io" where
  "short_io length_result read_result =
     \<lparr> stdin_bytes = [],
       ma_decoder_init_file = (\<lambda>path cfg. (MA_SUCCESS, short_decoder length_result read_result)),
       ma_decoder_init_memory = (\<lambda>bytes cfg. (MA_ERROR (- 1), frames_decoder [] 1)),
       WHISPER_FFMPEG = False,
       ffmpeg_decode_audio = (\<lambda>path. (True, [])) \<rparr>"

text \<open>
  A resampler stub that copies its input; its state counts the conversions since
  the last reset.
\<close>

definition copy_api :: "(nat, real) resampler_api" where
  "copy_api =
     \<lparr> ma_linear_resampler_init = (\<lambda>cfg r. (MA_SUCCESS, 0)),
       ma_linear_resampler_uninit = (\<lambda>r. r),
       ma_linear_resampler_reset = (\<lambda>r. 0),
       ma_linear_resampler_get_expected_output_frame_count = (\<lambda>r n. n),
       ma_linear_resampler_process_pcm_frames =
         (\<lambda>r input capacity. (Suc r, take capacity input, min capacity (length input))) \<rparr>"

text \<open>A denoiser stub without state that halves every sample of the frame.\<close>

definition halve :: "unit \<Rightarrow> real list \<Rightarrow> unit \<times> real list" where
  "halve st frame = (st, map (\<lambda>x. x / 2) frame)"

section \<open>Properties of the machine integers\<close>

lemma sint_std_max: "sint (std_max a b) = max (sint a) (sint b)"
  by (simp add: std_max_def word_sless_alt max_def)

lemma sint_std_min: "sint (std_min a b) = min (sint a) (sint b)"
  by (simp add: std_min_def word_sless_alt min_def)

lemma sint_decrement:
  fixes n :: int32_t
  assumes "- (2 ^ 31) < sint n"
  shows "sint (n - 1) = sint n - 1"
proof -
  have "sint n < 2 ^ 31"
    using sint_lt [of n] by simp
  with assms have "signed_take_bit 31 (sint n - 1) = sint n - 1"
    by (intro signed_take_bit_int_eq_self) auto
  then show ?thesis
    by (simp add: sint_word_ariths)
qed

text \<open>Division by a positive divisor, truncated towards zero, moves towards zero.\<close>

lemma div_pos_bounds:
  fixes b l :: int
  assumes "0 < l" "0 \<le> b"
  shows "0 \<le> b div l" "b div l \<le> b div l * l" "b div l * l \<le> b"
proof -
  show 1: "0 \<le> b div l"
    using assms by (simp add: pos_imp_zdiv_nonneg_iff)
  have "b div l * 1 \<le> b div l * l"
    using 1 assms by (intro mult_left_mono) auto
  then show "b div l \<le> b div l * l" by simp
  have "0 \<le> b mod l" using assms by simp
  then show "b div l * l \<le> b"
    using div_mult_mod_eq [of b l] by linarith
qed

lemma sdiv_pos_bounds:
  fixes a l :: int
  assumes "0 < l"
  shows "min a 0 \<le> a sdiv l \<and> a sdiv l \<le> max a 0
       \<and> min a 0 \<le> a sdiv l * l \<and> a sdiv l * l \<le> max a 0
       \<and> min a 0 \<le> a - a sdiv l * l \<and> a - a sdiv l * l \<le> max a 0"
proof (cases "0 \<le> a")
  case True
  then have q: "a sdiv l = a div l"
    using assms by (simp add: signed_divide_int_def sgn_if)
  show ?thesis
    using True div_pos_bounds [OF assms True] by (simp add: q)
next
  case False
  then have b: "0 \<le> - a" by simp
  from False have q: "a sdiv l = - ((- a) div l)"
    using assms by (simp add: signed_divide_int_def sgn_if)
  show ?thesis
    using False div_pos_bounds [OF assms b] by (simp add: q)
qed

lemma sint_i64_div:
  fixes x c :: int64_t
  assumes "0 < sint c"
  shows "sint (i64_div x c) = sint x sdiv sint c"
proof -
  have r: "- (2 ^ 63) \<le> sint x" "sint x < 2 ^ 63"
    using sint_ge [of x] sint_lt [of x] by simp_all
  have "- (2 ^ 63) \<le> sint x sdiv sint c \<and> sint x sdiv sint c < 2 ^ 63"
    using sdiv_pos_bounds [OF assms, of "sint x"] r by linarith
  then have "signed_take_bit 63 (sint x sdiv sint c) = sint x sdiv sint c"
    by (simp add: signed_take_bit_int_eq_self_iff)
  then show ?thesis
    by (simp add: i64_div_def sint_sbintrunc')
qed

text \<open>
  The pattern \<^verbatim>\<open>q = x / c; x - q * c\<close> with a positive divisor never overflows:
  the product lies between 0 and \<open>x\<close>, and so does the remainder.
\<close>

lemma i64_div_no_overflow:
  fixes x c :: int64_t
  assumes "0 < sint c"
  shows "\<not> i64_mul_overflows (i64_div x c) c"
    and "\<not> i64_sub_overflows x (i64_div x c * c)"
proof -
  let ?q = "sint x sdiv sint c"
  have r: "- (2 ^ 63) \<le> sint x" "sint x < 2 ^ 63"
    using sint_ge [of x] sint_lt [of x] by simp_all
  have "- (2 ^ 63) \<le> ?q * sint c \<and> ?q * sint c < 2 ^ 63"
    using sdiv_pos_bounds [OF assms, of "sint x"] r by linarith
  then have "signed_take_bit 63 (?q * sint c) = ?q * sint c"
    by (simp add: signed_take_bit_int_eq_self_iff)
  then have m: "sint (i64_div x c * c) = ?q * sint c"
    by (simp add: sint_word_ariths sint_i64_div [OF assms])
  then show "\<not> i64_mul_overflows (i64_div x c) c"
    by (simp add: i64_mul_overflows_def sint_i64_div [OF assms])
  have "- (2 ^ 63) \<le> sint x - ?q * sint c \<and> sint x - ?q * sint c < 2 ^ 63"
    using sdiv_pos_bounds [OF assms, of "sint x"] r by linarith
  then have "signed_take_bit 63 (sint x - ?q * sint c) = sint x - ?q * sint c"
    by (simp add: signed_take_bit_int_eq_self_iff)
  moreover have "sint (x - y) = signed_take_bit 63 (sint x - sint y)" for y :: int64_t
    by (simp add: sint_word_ariths)
  ultimately have "sint (x - i64_div x c * c) = sint x - sint (i64_div x c * c)"
    by (simp only: m)
  then show "\<not> i64_sub_overflows x (i64_div x c * c)"
    by (simp only: i64_sub_overflows_def not_not)
qed

lemma i64_mul_10_overflows:
  "i64_mul_overflows t 10 \<longleftrightarrow>
     \<not> (- 922337203685477580 \<le> sint t \<and> sint t \<le> 922337203685477580)"
proof -
  have "sint (t * 10) = signed_take_bit 63 (sint t * 10)"
    by (simp add: sint_word_ariths)
  then have "i64_mul_overflows t 10 \<longleftrightarrow>
      \<not> (- (2 ^ 63) \<le> sint t * 10 \<and> sint t * 10 < 2 ^ 63)"
    by (simp add: i64_mul_overflows_def signed_take_bit_int_eq_self_iff)
  then show ?thesis by auto
qed

section \<open>Properties of the vector operations and of the decode loops\<close>

lemma length_resize [simp]: "length (resize z v n) = n"
  by (simp add: resize_def)

lemma length_store [simp]: "length (store buf ws) = length buf"
  by (simp add: store_def)

lemma store_full: "length ws = length buf \<Longrightarrow> store buf ws = ws"
  by (simp add: store_def)

lemma resize_same: "length v = n \<Longrightarrow> resize z v n = v"
  by (simp add: resize_def)

lemma fold_update_range:
  "k + n \<le> length v \<Longrightarrow>
     fold (\<lambda>j b. b[k + j := f j]) [0..<n] v = take k v @ map f [0..<n] @ drop (k + n) v"
proof (induction n)
  case 0
  then show ?case by simp
next
  case (Suc n)
  then have IH: "fold (\<lambda>j b. b[k + j := f j]) [0..<n] v = take k v @ map f [0..<n] @ drop (k + n) v"
    by simp
  from Suc.prems have "drop (k + n) v = v ! (k + n) # drop (Suc (k + n)) v"
    by (simp add: Cons_nth_drop_Suc)
  then have "(take k v @ map f [0..<n] @ drop (k + n) v)[k + n := f n]
      = take k v @ map f [0..<n] @ f n # drop (Suc (k + n)) v"
    using Suc.prems by (simp add: list_update_append)
  then show ?case
    by (simp add: IH)
qed

lemma fold_update_prefix:
  assumes "n \<le> length v"
  shows "fold (\<lambda>j b. b[j := f j]) [0..<n] v = map f [0..<n] @ drop n v"
  using fold_update_range [of 0 n v f] assms by simp

lemma sum_channels_eq:
  "length p = n \<Longrightarrow>
     sum_channels F sd n p = map (\<lambda>i. f32_add F (sd ! (2 * i)) (sd ! (2 * i + 1))) [0..<n]"
  by (simp add: sum_channels_def fold_update_prefix)

lemma split_channels_step:
  "n \<le> length a \<Longrightarrow> n \<le> length b \<Longrightarrow>
     split_channels sd n [a, b]
       = [map (\<lambda>i. sd ! (2 * i)) [0..<n] @ drop n a, map (\<lambda>i. sd ! (2 * i + 1)) [0..<n] @ drop n b]"
proof (induction n)
  case 0
  then show ?case by (simp add: split_channels_def)
next
  case (Suc n)
  then have IH: "split_channels sd n [a, b]
       = [map (\<lambda>i. sd ! (2 * i)) [0..<n] @ drop n a, map (\<lambda>i. sd ! (2 * i + 1)) [0..<n] @ drop n b]"
    by simp
  from Suc.prems have a: "drop n a = a ! n # drop (Suc n) a" and b: "drop n b = b ! n # drop (Suc n) b"
    by (simp_all add: Cons_nth_drop_Suc)
  have "split_channels sd (Suc n) [a, b] =
      (let s = split_channels sd n [a, b]; s1 = s[0 := (s ! 0)[n := sd ! (2 * n)]]
       in s1[1 := (s1 ! 1)[n := sd ! (2 * n + 1)]])"
    by (simp add: split_channels_def Let_def)
  also have "\<dots> = [map (\<lambda>i. sd ! (2 * i)) [0..<Suc n] @ drop (Suc n) a,
                   map (\<lambda>i. sd ! (2 * i + 1)) [0..<Suc n] @ drop (Suc n) b]"
    by (simp add: IH a b list_update_append Let_def)
  finally show ?case .
qed

lemma resize_two: "\<exists>a b. resize [] (ps :: 'a list list) 2 = [a, b]"
proof -
  have "length (resize [] ps 2) = 2" by simp
  then show ?thesis
    by (metis (no_types) length_0_conv length_Suc_conv numeral_2_eq_2)
qed


lemma stereo_buffer_length [simp]:
  "length (stereo_buffer F d p) = 2 * snd (ma_decoder_get_length_in_pcm_frames d)"
  by (simp add: stereo_buffer_def Let_def)

lemma decode_frames_stereo:
  assumes "fst (ma_decoder_get_length_in_pcm_frames d) = MA_SUCCESS"
    and "fst (ma_decoder_read_pcm_frames d (snd (ma_decoder_get_length_in_pcm_frames d))) = MA_SUCCESS"
  shows "decode_frames F d p ps True =
     \<lparr> rad_error = None,
       rad_pcmf32 = map (\<lambda>i. f32_add F (stereo_buffer F d p ! (2 * i)) (stereo_buffer F d p ! (2 * i + 1)))
                      [0..<snd (ma_decoder_get_length_in_pcm_frames d)],
       rad_pcmf32s = [map (\<lambda>i. stereo_buffer F d p ! (2 * i)) [0..<snd (ma_decoder_get_length_in_pcm_frames d)],
                      map (\<lambda>i. stereo_buffer F d p ! (2 * i + 1)) [0..<snd (ma_decoder_get_length_in_pcm_frames d)]] \<rparr>"
proof -
  obtain a b where ab: "resize [] ps 2 = [a, b]"
    using resize_two by blast
  show ?thesis
    using assms
    by (simp add: decode_frames_def Let_def split_beta ab sum_channels_eq split_channels_step
        stereo_buffer_def mult.commute)
qed

lemma decode_frames_mono:
  assumes "fst (ma_decoder_get_length_in_pcm_frames d) = MA_SUCCESS"
    and "fst (ma_decoder_read_pcm_frames d (snd (ma_decoder_get_length_in_pcm_frames d))) = MA_SUCCESS"
  shows "decode_frames F d p ps False =
     \<lparr> rad_error = None,
       rad_pcmf32 = store (resize (f32_lit F 0) p (snd (ma_decoder_get_length_in_pcm_frames d)))
                      (fst (snd (ma_decoder_read_pcm_frames d (snd (ma_decoder_get_length_in_pcm_frames d))))),
       rad_pcmf32s = ps \<rparr>"
  using assms by (simp add: decode_frames_def Let_def split_beta)

lemma decode_frames_ok_iff:
  "rad_error (decode_frames F d p ps stereo) = None \<longleftrightarrow>
     fst (ma_decoder_get_length_in_pcm_frames d) = MA_SUCCESS
     \<and> fst (ma_decoder_read_pcm_frames d (snd (ma_decoder_get_length_in_pcm_frames d))) = MA_SUCCESS"
  by (simp add: decode_frames_def Let_def split_beta)

section \<open>The frame loop as a recursion over the buffer\<close>

lemma length_rnnoise_process_frame [simp]:
  "length (snd (rnnoise_process_frame rn st frame)) = length frame"
  by (simp add: rnnoise_process_frame_def split_beta)

lemma window_nth:
  assumes "i + n \<le> length xs"
  shows "map (\<lambda>j. f (xs ! (i + j))) [0..<n] = map f (take n (drop i xs))"
proof (rule nth_equalityI)
  show "length (map (\<lambda>j. f (xs ! (i + j))) [0..<n]) = length (map f (take n (drop i xs)))"
    using assms by simp
next
  fix j
  assume "j < length (map (\<lambda>j. f (xs ! (i + j))) [0..<n])"
  then show "map (\<lambda>j. f (xs ! (i + j))) [0..<n] ! j = map f (take n (drop i xs)) ! j"
    using assms by simp
qed

lemma scale_frame_eq:
  assumes "length frame = RNNOISE_FRAME_SIZE" and "i + RNNOISE_FRAME_SIZE \<le> length buf"
  shows "scale_frame F buf i frame
     = map (\<lambda>x. f32_mul F x (f32_lit F 32768)) (take RNNOISE_FRAME_SIZE (drop i buf))"
  using assms window_nth [of i RNNOISE_FRAME_SIZE buf "\<lambda>x. f32_mul F x (f32_lit F 32768)"]
  by (simp add: scale_frame_def fold_update_prefix)

lemma copy_back_eq:
  assumes "length frame = RNNOISE_FRAME_SIZE" and "i + RNNOISE_FRAME_SIZE \<le> length buf"
  shows "copy_back F frame i buf
     = take i buf @ map (\<lambda>y. f32_div F y (f32_lit F 32768)) frame
       @ drop (i + RNNOISE_FRAME_SIZE) buf"
proof -
  have "map (\<lambda>j. f32_div F (frame ! j) (f32_lit F 32768)) [0..<RNNOISE_FRAME_SIZE]
      = map (\<lambda>y. f32_div F y (f32_lit F 32768)) frame"
    using window_nth [of 0 "length frame" frame] assms(1) by simp
  then show ?thesis
    using assms(2) by (simp add: copy_back_def fold_update_range)
qed

lemma frame_loop_process_frames:
  assumes "length frame = RNNOISE_FRAME_SIZE" and "i \<le> length buf"
  shows "frame_loop F rn st i buf frame
     = (fst (process_frames F rn st (drop i buf)),
        take i buf @ snd (process_frames F rn st (drop i buf)))"
  using assms
proof (induction F rn st i buf frame rule: frame_loop.induct)
  case (1 F rn st i buf frame)
  show ?case
  proof (cases "i + RNNOISE_FRAME_SIZE \<le> length buf")
    case False
    with "1.prems" have "length (drop i buf) < RNNOISE_FRAME_SIZE" by simp
    then have "process_frames F rn st (drop i buf) = (st, drop i buf)"
      by (simp add: process_frames.simps)
    with False show ?thesis
      by (simp add: frame_loop.simps [of F rn st i buf frame])
  next
    case True
    let ?up = "\<lambda>x. f32_mul F x (f32_lit F 32768)"
    let ?dn = "\<lambda>y. f32_div F y (f32_lit F 32768)"
    let ?frame1 = "map ?up (take RNNOISE_FRAME_SIZE (drop i buf))"
    let ?r = "rnnoise_process_frame rn st ?frame1"
    let ?buf1 = "take i buf @ map ?dn (snd ?r) @ drop (i + RNNOISE_FRAME_SIZE) buf"
    have f1: "scale_frame F buf i frame = ?frame1"
      using 1 True by (simp add: scale_frame_eq)
    have len1: "length ?frame1 = RNNOISE_FRAME_SIZE"
      using True by simp
    then have len2: "length (snd ?r) = RNNOISE_FRAME_SIZE"
      by simp
    have b1: "copy_back F (snd ?r) i buf = ?buf1"
      using len2 True by (simp add: copy_back_eq)
    have step: "frame_loop F rn st i buf frame
        = frame_loop F rn (fst ?r) (i + RNNOISE_FRAME_SIZE) ?buf1 (snd ?r)"
      using True by (simp add: frame_loop.simps [of F rn st i buf frame] f1 b1 Let_def)
    have lb: "i + RNNOISE_FRAME_SIZE \<le> length ?buf1"
      using True len2 by simp
    have IH: "frame_loop F rn (fst ?r) (i + RNNOISE_FRAME_SIZE) ?buf1 (snd ?r)
        = (fst (process_frames F rn (fst ?r) (drop (i + RNNOISE_FRAME_SIZE) ?buf1)),
           take (i + RNNOISE_FRAME_SIZE) ?buf1
             @ snd (process_frames F rn (fst ?r) (drop (i + RNNOISE_FRAME_SIZE) ?buf1)))"
      using "1.IH" [OF True f1 [symmetric] refl b1 [symmetric] len2 lb] .
    have d: "drop (i + RNNOISE_FRAME_SIZE) ?buf1 = drop (i + RNNOISE_FRAME_SIZE) buf"
      using True len2 by simp
    have t: "take (i + RNNOISE_FRAME_SIZE) ?buf1 = take i buf @ map ?dn (snd ?r)"
      using True len2 by simp
    have "\<not> length (drop i buf) < RNNOISE_FRAME_SIZE"
      using True by simp
    then have p: "process_frames F rn st (drop i buf)
        = (fst (process_frames F rn (fst ?r) (drop (i + RNNOISE_FRAME_SIZE) buf)),
           map ?dn (snd ?r) @ snd (process_frames F rn (fst ?r) (drop (i + RNNOISE_FRAME_SIZE) buf)))"
      by (simp add: process_frames.simps [of F rn st "drop i buf"] Let_def add.commute)
    show ?thesis
      by (simp only: step IH d t p fst_conv snd_conv append_assoc)
  qed
qed

lemma denoise_frames_process_frames:
  "denoise_frames F rn st buf = process_frames F rn st buf"
  by (simp add: denoise_frames_def frame_loop_process_frames)

section \<open>Frames, trailing partial frame and the log of the calls\<close>

lemma full_frames_short: "length xs < RNNOISE_FRAME_SIZE \<Longrightarrow> full_frames xs = []"
  by (simp add: full_frames_def)

lemma partial_frame_short: "length xs < RNNOISE_FRAME_SIZE \<Longrightarrow> partial_frame xs = xs"
  by (simp add: partial_frame_def)

lemma div_frame_size:
  assumes "RNNOISE_FRAME_SIZE \<le> n"
  shows "n div RNNOISE_FRAME_SIZE = Suc ((n - RNNOISE_FRAME_SIZE) div RNNOISE_FRAME_SIZE)"
  using assms by (simp add: RNNOISE_FRAME_SIZE_def le_div_geq)

lemma full_frames_long:
  assumes "RNNOISE_FRAME_SIZE \<le> length xs"
  shows "full_frames xs = take RNNOISE_FRAME_SIZE xs # full_frames (drop RNNOISE_FRAME_SIZE xs)"
proof -
  let ?m = "(length xs - RNNOISE_FRAME_SIZE) div RNNOISE_FRAME_SIZE"
  have "[0..<Suc ?m] = 0 # map Suc [0..<?m]"
    by (simp add: upt_conv_Cons map_Suc_upt del: upt_Suc)
  then show ?thesis
    by (simp add: full_frames_def div_frame_size [OF assms] add.commute del: upt_Suc)
qed

lemma partial_frame_long:
  assumes "RNNOISE_FRAME_SIZE \<le> length xs"
  shows "partial_frame xs = partial_frame (drop RNNOISE_FRAME_SIZE xs)"
  by (simp add: partial_frame_def div_frame_size [OF assms] add.commute)

lemma process_frames_logged:
  "\<exists>new. snd (fst (process_frames F (logged rn) sl xs)) = snd sl @ new
     \<and> map fst new = map (map (\<lambda>x. f32_mul F x (f32_lit F 32768))) (full_frames xs)
     \<and> snd (process_frames F (logged rn) sl xs)
         = concat (map (scaled_back F) new) @ partial_frame xs
     \<and> fst (fst (process_frames F (logged rn) sl xs)) = fst (process_frames F rn (fst sl) xs)
     \<and> snd (process_frames F (logged rn) sl xs) = snd (process_frames F rn (fst sl) xs)"
proof (induction xs arbitrary: sl rule: length_induct)
  case (1 xs)
  show ?case
  proof (cases "length xs < RNNOISE_FRAME_SIZE")
    case True
    then have "process_frames F (logged rn) sl xs = (sl, xs)"
      "process_frames F rn (fst sl) xs = (fst sl, xs)"
      by (simp_all add: process_frames.simps)
    with True show ?thesis
      by (simp add: full_frames_short partial_frame_short)
  next
    case False
    let ?frame = "map (\<lambda>x. f32_mul F x (f32_lit F 32768)) (take RNNOISE_FRAME_SIZE xs)"
    let ?out = "snd (rn (fst sl) ?frame)"
    let ?sl1 = "(fst (rn (fst sl) ?frame), snd sl @ [(?frame, ?out)])"
    let ?rest = "drop RNNOISE_FRAME_SIZE xs"
    have call: "rnnoise_process_frame (logged rn) sl ?frame = (?sl1, store ?frame ?out)"
      by (simp add: rnnoise_process_frame_def logged_def split_beta)
    have call0: "rnnoise_process_frame rn (fst sl) ?frame = (fst ?sl1, store ?frame ?out)"
      by (simp add: rnnoise_process_frame_def split_beta)
    have unf: "process_frames F (logged rn) sl xs
        = (fst (process_frames F (logged rn) ?sl1 ?rest),
           scaled_back F (?frame, ?out) @ snd (process_frames F (logged rn) ?sl1 ?rest))"
      using False
      by (simp add: process_frames.simps [of F "logged rn" sl xs] call Let_def scaled_back_def)
    have unf0: "process_frames F rn (fst sl) xs
        = (fst (process_frames F rn (fst ?sl1) ?rest),
           scaled_back F (?frame, ?out) @ snd (process_frames F rn (fst ?sl1) ?rest))"
      using False
      by (simp add: process_frames.simps [of F rn "fst sl" xs] call0 Let_def scaled_back_def)
    have "length ?rest < length xs"
      using False by (simp add: RNNOISE_FRAME_SIZE_def)
    with 1 obtain new1 where
      n1: "snd (fst (process_frames F (logged rn) ?sl1 ?rest)) = snd ?sl1 @ new1"
      and n2: "map fst new1 = map (map (\<lambda>x. f32_mul F x (f32_lit F 32768))) (full_frames ?rest)"
      and n3: "snd (process_frames F (logged rn) ?sl1 ?rest)
         = concat (map (scaled_back F) new1) @ partial_frame ?rest"
      and n4: "fst (fst (process_frames F (logged rn) ?sl1 ?rest))
         = fst (process_frames F rn (fst ?sl1) ?rest)"
      and n5: "snd (process_frames F (logged rn) ?sl1 ?rest)
         = snd (process_frames F rn (fst ?sl1) ?rest)"
      by blast
    from False have long: "RNNOISE_FRAME_SIZE \<le> length xs"
      by simp
    have "snd (fst (process_frames F (logged rn) sl xs)) = snd sl @ ((?frame, ?out) # new1)"
      by (simp add: unf n1)
    moreover have "map fst ((?frame, ?out) # new1)
        = map (map (\<lambda>x. f32_mul F x (f32_lit F 32768))) (full_frames xs)"
      by (simp add: n2 full_frames_long [OF long])
    moreover have "snd (process_frames F (logged rn) sl xs)
        = concat (map (scaled_back F) ((?frame, ?out) # new1)) @ partial_frame xs"
      by (simp add: unf n3 partial_frame_long [OF long])
    moreover have "fst (fst (process_frames F (logged rn) sl xs))
        = fst (process_frames F rn (fst sl) xs)"
      by (simp add: unf unf0 n4)
    moreover have "snd (process_frames F (logged rn) sl xs)
        = snd (process_frames F rn (fst sl) xs)"
      by (simp add: unf unf0 n5)
    ultimately show ?thesis
      by blast
  qed
qed

lemma concat_full_frames: "concat (full_frames xs) @ partial_frame xs = xs"
proof (induction xs rule: length_induct)
  case (1 xs)
  show ?case
  proof (cases "length xs < RNNOISE_FRAME_SIZE")
    case True
    then show ?thesis by (simp add: full_frames_short partial_frame_short)
  next
    case False
    then have long: "RNNOISE_FRAME_SIZE \<le> length xs" by simp
    then have "length (drop RNNOISE_FRAME_SIZE xs) < length xs"
      by (simp add: RNNOISE_FRAME_SIZE_def)
    with 1 have "concat (full_frames (drop RNNOISE_FRAME_SIZE xs))
        @ partial_frame (drop RNNOISE_FRAME_SIZE xs) = drop RNNOISE_FRAME_SIZE xs"
      by blast
    then show ?thesis
      by (simp add: full_frames_long [OF long] partial_frame_long [OF long])
  qed
qed

lemma full_frames_length: "fr \<in> set (full_frames xs) \<Longrightarrow> length fr = RNNOISE_FRAME_SIZE"
proof -
  assume "fr \<in> set (full_frames xs)"
  then obtain k where k: "k < length xs div RNNOISE_FRAME_SIZE"
    and fr: "fr = take RNNOISE_FRAME_SIZE (drop (RNNOISE_FRAME_SIZE * k) xs)"
    by (auto simp add: full_frames_def)
  from k have "RNNOISE_FRAME_SIZE * Suc k \<le> length xs"
    by (metis Suc_leI div_mult_mod_eq le_add1 mult.commute mult_le_mono2 order_trans less_eq_div_iff_mult_less_eq times_div_less_eq_dividend)
  then show ?thesis
    by (simp add: fr)
qed

lemma partial_frame_length: "length (partial_frame xs) < RNNOISE_FRAME_SIZE"
  by (simp add: partial_frame_def RNNOISE_FRAME_SIZE_def)

lemma denoise_audio_output:
  assumes "pcmf32 \<noteq> []"
  shows "snd (snd (denoise_audio api F rn g st pcmf32))
     = snd (resample_audio api F (g_resamplers_initialized g) (g_resampler_48k_to_16k g)
         (snd (denoise_frames F rn st
            (snd (resample_audio api F (g_resamplers_initialized g) (g_resampler_16k_to_48k g)
               pcmf32)))))"
proof -
  obtain r_up up where u: "resample_audio api F (g_resamplers_initialized g)
      (g_resampler_16k_to_48k g) pcmf32 = (r_up, up)"
    by (cases "resample_audio api F (g_resamplers_initialized g) (g_resampler_16k_to_48k g) pcmf32")
  obtain st1 buf where d: "denoise_frames F rn st up = (st1, buf)"
    by (cases "denoise_frames F rn st up")
  obtain r_down out where w: "resample_audio api F (g_resamplers_initialized g)
      (g_resampler_48k_to_16k g) buf = (r_down, out)"
    by (cases "resample_audio api F (g_resamplers_initialized g) (g_resampler_48k_to_16k g) buf")
  show ?thesis
    using assms by (simp add: denoise_audio_def u d w)
qed

lemma denoise_frames_logged:
  "(fst (fst (denoise_frames F (logged rn) (st, []) buf)),
        snd (denoise_frames F (logged rn) (st, []) buf)) = denoise_frames F rn st buf
   \<and> map fst (snd (fst (denoise_frames F (logged rn) (st, []) buf)))
        = map (map (\<lambda>x. f32_mul F x (f32_lit F 32768))) (full_frames buf)
   \<and> snd (denoise_frames F (logged rn) (st, []) buf)
        = concat (map (scaled_back F) (snd (fst (denoise_frames F (logged rn) (st, []) buf))))
          @ partial_frame buf"
proof -
  let ?r = "process_frames F (logged rn) (st, []) buf"
  from process_frames_logged [of F rn "(st, [])" buf] obtain new where
    n1: "snd (fst ?r) = [] @ new"
    and n2: "map fst new = map (map (\<lambda>x. f32_mul F x (f32_lit F 32768))) (full_frames buf)"
    and n3: "snd ?r = concat (map (scaled_back F) new) @ partial_frame buf"
    and n4: "fst (fst ?r) = fst (process_frames F rn st buf)"
    and n5: "snd ?r = snd (process_frames F rn st buf)"
    by auto
  have b: "(fst (fst ?r), snd ?r) = process_frames F rn st buf"
    by (simp only: n4 n5 prod.collapse)
  have c: "map fst (snd (fst ?r))
      = map (map (\<lambda>x. f32_mul F x (f32_lit F 32768))) (full_frames buf)"
    using n1 n2 by simp
  have d: "snd ?r = concat (map (scaled_back F) (snd (fst ?r))) @ partial_frame buf"
    using n1 n3 by simp
  from b c d show ?thesis
    by (simp only: denoise_frames_process_frames)
qed

lemma halve_run:
  "denoise_frames real_ops halve () (replicate 480 (1 / 2) @ [1 / 4])
     = ((), replicate 480 (1 / 4) @ [1 / 4])"
  by (simp add: denoise_frames_process_frames
      process_frames.simps [of _ _ _ "replicate 480 (1 / 2) @ [1 / 4]"]
      process_frames.simps [of _ _ _ "[1 / 4]"]
      RNNOISE_FRAME_SIZE_def rnnoise_process_frame_def halve_def store_def real_ops_def Let_def)

lemma copy_run:
  "resample_audio copy_api real_ops True r (replicate 480 a @ [b])
     = (Suc 0, replicate 480 a @ [b])"
  by (simp add: resample_audio_def copy_api_def Let_def store_def resize_def real_ops_def)

lemma example_frames:
  "full_frames (replicate 480 a @ [b]) = [replicate 480 a]"
  "partial_frame (replicate 480 a @ [b]) = [b]"
proof -
  have l: "RNNOISE_FRAME_SIZE \<le> length (replicate 480 a @ [b])"
    by (simp add: RNNOISE_FRAME_SIZE_def)
  have s: "length [b] < RNNOISE_FRAME_SIZE"
    by (simp add: RNNOISE_FRAME_SIZE_def)
  have d: "drop RNNOISE_FRAME_SIZE (replicate 480 a @ [b]) = [b]"
    "take RNNOISE_FRAME_SIZE (replicate 480 a @ [b]) = replicate 480 a"
    by (simp_all add: RNNOISE_FRAME_SIZE_def)
  show "full_frames (replicate 480 a @ [b]) = [replicate 480 a]"
    by (simp only: full_frames_long [OF l] d full_frames_short [OF s])
  show "partial_frame (replicate 480 a @ [b]) = [b]"
    by (simp only: partial_frame_long [OF l] d partial_frame_short [OF s])
qed

text \<open>A whole run of \<^verbatim>\<open>denoise_audio\<close>, plain and observed.\<close>

lemma denoise_audio_run:
  assumes "pcmf32 \<noteq> []"
  shows "denoise_audio api F rn g st pcmf32
     = (g \<lparr> g_resampler_16k_to_48k :=
              fst (resample_audio api F (g_resamplers_initialized g)
                     (g_resampler_16k_to_48k g) pcmf32),
            g_resampler_48k_to_16k :=
              fst (resample_audio api F (g_resamplers_initialized g) (g_resampler_48k_to_16k g)
                     (snd (denoise_frames F rn st
                        (snd (resample_audio api F (g_resamplers_initialized g)
                           (g_resampler_16k_to_48k g) pcmf32))))) \<rparr>,
        fst (denoise_frames F rn st
               (snd (resample_audio api F (g_resamplers_initialized g)
                  (g_resampler_16k_to_48k g) pcmf32))),
        snd (resample_audio api F (g_resamplers_initialized g) (g_resampler_48k_to_16k g)
               (snd (denoise_frames F rn st
                  (snd (resample_audio api F (g_resamplers_initialized g)
                     (g_resampler_16k_to_48k g) pcmf32))))))"
proof -
  obtain r_up up where u: "resample_audio api F (g_resamplers_initialized g)
      (g_resampler_16k_to_48k g) pcmf32 = (r_up, up)"
    by (cases "resample_audio api F (g_resamplers_initialized g) (g_resampler_16k_to_48k g) pcmf32")
  obtain st1 buf where d: "denoise_frames F rn st up = (st1, buf)"
    by (cases "denoise_frames F rn st up")
  obtain r_down out where w: "resample_audio api F (g_resamplers_initialized g)
      (g_resampler_48k_to_16k g) buf = (r_down, out)"
    by (cases "resample_audio api F (g_resamplers_initialized g) (g_resampler_48k_to_16k g) buf")
  show ?thesis
    using assms by (simp add: denoise_audio_def u d w)
qed

lemma denoise_audio_empty: "denoise_audio api F rn g st [] = (g, st, [])"
  by (simp add: denoise_audio_def)

lemma denoise_audio_logged:
  assumes ne: "pcmf32 \<noteq> []"
  shows "(fst (denoise_audio api F (logged rn) g (st, []) pcmf32),
          fst (fst (snd (denoise_audio api F (logged rn) g (st, []) pcmf32))),
          snd (snd (denoise_audio api F (logged rn) g (st, []) pcmf32)))
           = denoise_audio api F rn g st pcmf32"
    and "snd (fst (snd (denoise_audio api F (logged rn) g (st, []) pcmf32)))
           = snd (fst (denoise_frames F (logged rn) (st, []) (upsampled api F g pcmf32)))"
    and "snd (snd (denoise_audio api F (logged rn) g (st, []) pcmf32))
           = snd (resample_audio api F (g_resamplers_initialized g) (g_resampler_48k_to_16k g)
                (snd (denoise_frames F (logged rn) (st, []) (upsampled api F g pcmf32))))"
proof -
  let ?up = "snd (resample_audio api F (g_resamplers_initialized g)
                (g_resampler_16k_to_48k g) pcmf32)"
  let ?r = "denoise_frames F (logged rn) (st, []) ?up"
  from denoise_frames_logged [of F rn st ?up]
  have sim: "(fst (fst ?r), snd ?r) = denoise_frames F rn st ?up"
    by (rule conjunct1)
  have s1: "fst (denoise_frames F rn st ?up) = fst (fst ?r)"
    by (simp only: sim [symmetric] fst_conv)
  have s2: "snd (denoise_frames F rn st ?up) = snd ?r"
    by (simp only: sim [symmetric] snd_conv)
  note L = denoise_audio_run [OF ne, of api F "logged rn" g "(st, [])"]
  note U = denoise_audio_run [OF ne, of api F rn g st]
  show "(fst (denoise_audio api F (logged rn) g (st, []) pcmf32),
          fst (fst (snd (denoise_audio api F (logged rn) g (st, []) pcmf32))),
          snd (snd (denoise_audio api F (logged rn) g (st, []) pcmf32)))
           = denoise_audio api F rn g st pcmf32"
    by (simp only: L U s1 s2 fst_conv snd_conv)
  show "snd (fst (snd (denoise_audio api F (logged rn) g (st, []) pcmf32)))
           = snd (fst (denoise_frames F (logged rn) (st, []) (upsampled api F g pcmf32)))"
    by (simp only: L upsampled_def fst_conv snd_conv)
  show "snd (snd (denoise_audio api F (logged rn) g (st, []) pcmf32))
           = snd (resample_audio api F (g_resamplers_initialized g) (g_resampler_48k_to_16k g)
                (snd (denoise_frames F (logged rn) (st, []) (upsampled api F g pcmf32))))"
    by (simp only: L upsampled_def fst_conv snd_conv)
qed

section \<open>Claims about the timestamp mapper\<close>

text \<open>
  Claim C4. For every non-negative timestamp \<open>t\<close> and every \<open>n_samples > 0\<close>,
  \<^verbatim>\<open>timestamp_to_sample(t, n_samples, rate)\<close> returns an index between 0 and
  \<open>n_samples - 1\<close>, whatever the rate.
\<close>

theorem timestamp_to_sample_clamped:
  assumes "0 \<le> sint t" and "0 < sint n_samples"
  shows "0 \<le> sint (timestamp_to_sample t n_samples rate)
       \<and> sint (timestamp_to_sample t n_samples rate) \<le> sint n_samples - 1"
  using assms
  by (simp add: timestamp_to_sample_def sint_std_max sint_std_min sint_decrement)

theorem timestamp_to_sample_clamped_witness:
  "0 \<le> sint (100 :: int64_t) \<and> 0 < sint (10 :: int32_t)
   \<and> 0 \<le> sint (timestamp_to_sample 100 10 16000)
   \<and> sint (timestamp_to_sample 100 10 16000) \<le> sint (10 :: int32_t) - 1"
  using timestamp_to_sample_clamped [of 100 10 16000] by simp

text \<open>
  Claim C10, as stated: for every \<open>t\<close> and every \<open>n_samples \<le> 0\<close> the result is 0.
  It fails at \<open>n_samples = INT_MIN\<close>: there \<open>n_samples - 1\<close> leaves the range of
  \<^verbatim>\<open>int\<close> and wraps to \<open>INT_MAX\<close>, so the upper clamp is void and one second at
  16 kHz maps to sample 16000.
\<close>

theorem timestamp_to_sample_int_min_counterexample:
  "sint (- 2147483648 :: int32_t) \<le> 0
   \<and> timestamp_to_sample 100 (- 2147483648) 16000 = 16000
   \<and> timestamp_to_sample 100 (- 2147483648) 16000 \<noteq> 0"
  by (simp add: timestamp_to_sample_def std_max_def std_min_def i64_div_def word_sless_alt)

text \<open>
  Claim C10, amended: for every timestamp \<open>t\<close> of any sign, every rate and every
  \<open>n_samples\<close> with \<open>INT_MIN < n_samples \<le> 0\<close>, the result is exactly 0.
\<close>

theorem timestamp_to_sample_empty_buffer:
  assumes "sint n_samples \<le> 0" and "- (2 ^ 31) < sint n_samples"
  shows "timestamp_to_sample t n_samples rate = 0"
proof -
  have "sint (timestamp_to_sample t n_samples rate) = sint (0 :: int32_t)"
    using assms
    by (simp add: timestamp_to_sample_def sint_std_max sint_std_min sint_decrement)
  then show ?thesis
    by (rule signed_word_eqI)
qed

theorem timestamp_to_sample_empty_buffer_witness:
  "sint (0 :: int32_t) \<le> 0 \<and> - (2 ^ 31) < sint (0 :: int32_t)
   \<and> timestamp_to_sample (- 100) 0 16000 = 0"
  using timestamp_to_sample_empty_buffer [of 0 "- 100" 16000] by simp

text \<open>
  Claim C5, as stated: no arithmetic overflow for any input of the 64-bit signed
  range. It fails at \<open>t = INT64_MAX\<close>: the first statement \<^verbatim>\<open>msec = t * 10\<close> leaves the
  range; with the wrapped product \<open>-10\<close> the text produced is \<^verbatim>\<open>00:00:00.-10\<close>.
\<close>

theorem to_timestamp_overflow_counterexample:
  "to_timestamp_overflows 9223372036854775807
   \<and> to_timestamp 9223372036854775807 False = ''00:00:00.-10''"
  by code_simp

text \<open>
  Claim C5, amended: the signed 64-bit arithmetic of \<^verbatim>\<open>to_timestamp\<close> stays in range
  exactly for the timestamps \<open>t\<close> with \<open>-922337203685477580 \<le> t \<le> 922337203685477580\<close>
  (those whose tenfold fits \<^verbatim>\<open>int64_t\<close>), which covers \<open>t = 0\<close> and every multi-hour
  value up to about 292 million years; outside this interval the product
  \<^verbatim>\<open>t * 10\<close> overflows.
\<close>

theorem to_timestamp_overflows_iff:
  "to_timestamp_overflows t \<longleftrightarrow>
     \<not> (- 922337203685477580 \<le> sint t \<and> sint t \<le> 922337203685477580)"
proof -
  have c: "0 < sint (3600000 :: int64_t)" "0 < sint (60000 :: int64_t)"
    "0 < sint (1000 :: int64_t)"
    by simp_all
  show ?thesis
    unfolding to_timestamp_overflows_def to_timestamp_parts_def Let_def
    by (simp add: i64_div_no_overflow [OF c(1)] i64_div_no_overflow [OF c(2)]
        i64_div_no_overflow [OF c(3)] i64_mul_10_overflows)
qed

theorem to_timestamp_overflows_iff_witness:
  "- 922337203685477580 \<le> sint (360000 :: int64_t)
   \<and> sint (360000 :: int64_t) \<le> 922337203685477580
   \<and> \<not> to_timestamp_overflows 360000 \<and> \<not> to_timestamp_overflows 0"
  using to_timestamp_overflows_iff [of 360000] to_timestamp_overflows_iff [of 0] by simp

text \<open>
  Claim C6. The three reference cases of \<^verbatim>\<open>to_timestamp\<close>: 0 and 6000 with the period,
  500 with the comma.
\<close>

theorem to_timestamp_reference_cases:
  "to_timestamp 0 False = ''00:00:00.000''
   \<and> to_timestamp 6000 False = ''00:01:00.000''
   \<and> to_timestamp 500 True = ''00:00:05,000''"
  by code_simp

section \<open>Claims about the decode adapter\<close>

lemmas example_run =
  read_audio_data_def open_decoder_def file_io_def short_io_def short_decoder_def
  decode_frames_def frames_decoder_def Let_def resize_def store_def
  sum_channels_def split_channels_def real_ops_def eval_nat_numeral

text \<open>
  Claim C1, as stated: with \<open>want_stereo\<close> set, a mono source yields an empty
  channel set and the mono buffer of the decode without \<open>want_stereo\<close>. It fails on
  a mono file of two frames with the samples 1 and 2. The decoder is configured
  for two channels whenever the flag is set, and the stereo branch runs on the
  flag alone: the channel set holds two channels, and the mono buffer holds the
  sums 2 and 4 where the decode without the flag gives 1 and 2.
\<close>

theorem mono_source_stereo_request_counterexample:
  "read_audio_data real_ops (file_io [[1], [2]]) ''mono.wav'' [] [] True
     = \<lparr> rad_error = None, rad_pcmf32 = [2, 4], rad_pcmf32s = [[1, 2], [1, 2]] \<rparr>
   \<and> read_audio_data real_ops (file_io [[1], [2]]) ''mono.wav'' [] [] False
     = \<lparr> rad_error = None, rad_pcmf32 = [1, 2], rad_pcmf32s = [] \<rparr>
   \<and> rad_pcmf32s (read_audio_data real_ops (file_io [[1], [2]]) ''mono.wav'' [] [] True) \<noteq> []
   \<and> rad_pcmf32 (read_audio_data real_ops (file_io [[1], [2]]) ''mono.wav'' [] [] True)
     \<noteq> rad_pcmf32 (read_audio_data real_ops (file_io [[1], [2]]) ''mono.wav'' [] [] False)"
  by (simp add: example_run)

text \<open>
  Claim C1, amended: whatever the channel count of the source, a successful decode
  with \<open>want_stereo\<close> set yields a channel set of exactly two channels and a mono
  buffer that is their sum, frame by frame; the channel set is left as the caller
  passed it (empty for an empty one) when \<open>want_stereo\<close> is not set.
\<close>

theorem stereo_request_decides_channel_set:
  assumes "rad_error (read_audio_data F io fname pcmf32 pcmf32s stereo) = None"
  shows "if stereo
         then length (rad_pcmf32s (read_audio_data F io fname pcmf32 pcmf32s stereo)) = 2
            \<and> rad_pcmf32 (read_audio_data F io fname pcmf32 pcmf32s stereo)
                = map2 (f32_add F)
                    (rad_pcmf32s (read_audio_data F io fname pcmf32 pcmf32s stereo) ! 0)
                    (rad_pcmf32s (read_audio_data F io fname pcmf32 pcmf32s stereo) ! 1)
         else rad_pcmf32s (read_audio_data F io fname pcmf32 pcmf32s stereo) = pcmf32s"
proof (cases "open_decoder io fname stereo")
  case (Inl e)
  with assms show ?thesis
    by (simp add: read_audio_data_def)
next
  case (Inr d)
  then have r: "read_audio_data F io fname pcmf32 pcmf32s stereo
      = decode_frames F d pcmf32 pcmf32s stereo"
    by (simp add: read_audio_data_def)
  with assms have s: "fst (ma_decoder_get_length_in_pcm_frames d) = MA_SUCCESS"
    "fst (ma_decoder_read_pcm_frames d (snd (ma_decoder_get_length_in_pcm_frames d)))
       = MA_SUCCESS"
    by (simp_all add: decode_frames_ok_iff)
  show ?thesis
  proof (cases stereo)
    case True
    with r have "read_audio_data F io fname pcmf32 pcmf32s True
        = decode_frames F d pcmf32 pcmf32s True"
      by simp
    with True show ?thesis
      by (simp add: decode_frames_stereo [OF s] map2_map_map)
  next
    case False
    with r have "read_audio_data F io fname pcmf32 pcmf32s False
        = decode_frames F d pcmf32 pcmf32s False"
      by simp
    with False show ?thesis
      by (simp add: decode_frames_mono [OF s])
  qed
qed

theorem stereo_request_decides_channel_set_witness:
  "rad_error (read_audio_data real_ops (file_io [[1], [2]]) ''mono.wav'' [] [] True) = None
   \<and> length (rad_pcmf32s
        (read_audio_data real_ops (file_io [[1], [2]]) ''mono.wav'' [] [] True)) = 2
   \<and> rad_error (read_audio_data real_ops (file_io [[1], [2]]) ''mono.wav'' [] [] False) = None
   \<and> rad_pcmf32s (read_audio_data real_ops (file_io [[1], [2]]) ''mono.wav'' [] [] False) = []"
proof -
  have t: "rad_error (read_audio_data real_ops (file_io [[1], [2]]) ''mono.wav'' [] [] True)
      = None"
    by (simp add: example_run)
  have f: "rad_error (read_audio_data real_ops (file_io [[1], [2]]) ''mono.wav'' [] [] False)
      = None"
    by (simp add: example_run)
  show ?thesis
    using stereo_request_decides_channel_set [OF t] stereo_request_decides_channel_set [OF f] t f
    by simp
qed

text \<open>
  Claim C2. When a decode with \<open>want_stereo\<close> set succeeds on a decoder that
  announces \<open>N\<close> frames, the interleaved buffer has \<open>2 N\<close> samples (it is exactly what
  the decoder stored when the decoder stored \<open>2 N\<close> samples), the channel set has
  two channels of length \<open>N\<close>, the mono buffer has length \<open>N\<close>, and for every
  \<open>i < N\<close> channel 0 holds sample \<open>2 i\<close>, channel 1 holds sample \<open>2 i + 1\<close>, and the
  mono sample is the sum of the two, with no averaging.
\<close>

theorem stereo_demultiplex:
  assumes opened: "open_decoder io fname True = Inr d"
    and ok: "rad_error (read_audio_data F io fname pcmf32 pcmf32s True) = None"
  defines "N \<equiv> snd (ma_decoder_get_length_in_pcm_frames d)"
    and "samples \<equiv> fst (snd (ma_decoder_read_pcm_frames d
                          (snd (ma_decoder_get_length_in_pcm_frames d))))"
    and "interleaved \<equiv> stereo_buffer F d pcmf32"
    and "mixed \<equiv> rad_pcmf32 (read_audio_data F io fname pcmf32 pcmf32s True)"
    and "channel \<equiv> rad_pcmf32s (read_audio_data F io fname pcmf32 pcmf32s True)"
  shows "length interleaved = 2 * N \<and> (length samples = 2 * N \<longrightarrow> interleaved = samples)
       \<and> length channel = 2 \<and> length (channel ! 0) = N \<and> length (channel ! 1) = N
       \<and> length mixed = N
       \<and> (\<forall>i<N. channel ! 0 ! i = interleaved ! (2 * i)
               \<and> channel ! 1 ! i = interleaved ! (2 * i + 1)
               \<and> mixed ! i = f32_add F (channel ! 0 ! i) (channel ! 1 ! i))"
proof -
  from ok opened have "rad_error (decode_frames F d pcmf32 pcmf32s True) = None"
    by (simp add: read_audio_data_def)
  then have s: "fst (ma_decoder_get_length_in_pcm_frames d) = MA_SUCCESS"
    "fst (ma_decoder_read_pcm_frames d (snd (ma_decoder_get_length_in_pcm_frames d)))
       = MA_SUCCESS"
    by (simp_all add: decode_frames_ok_iff)
  have r: "read_audio_data F io fname pcmf32 pcmf32s True
      = decode_frames F d pcmf32 pcmf32s True"
    using opened by (simp add: read_audio_data_def)
  have full: "length samples = 2 * N \<longrightarrow> interleaved = samples"
    by (simp add: interleaved_def samples_def N_def stereo_buffer_def Let_def store_full
        mult.commute)
  show ?thesis
    using full
    by (simp add: mixed_def channel_def interleaved_def N_def r decode_frames_stereo [OF s])
qed

theorem stereo_demultiplex_witness:
  "open_decoder (file_io [[1, 5], [2, 7]]) ''a.wav'' True
     = Inr (frames_decoder [[1, 5], [2, 7]] 2)
   \<and> rad_error (read_audio_data real_ops (file_io [[1, 5], [2, 7]]) ''a.wav'' [] [] True) = None
   \<and> stereo_buffer real_ops (frames_decoder [[1, 5], [2, 7]] 2) [] = [1, 5, 2, 7]
   \<and> rad_pcmf32s (read_audio_data real_ops (file_io [[1, 5], [2, 7]]) ''a.wav'' [] [] True)
     = [[1, 2], [5, 7]]
   \<and> rad_pcmf32 (read_audio_data real_ops (file_io [[1, 5], [2, 7]]) ''a.wav'' [] [] True)
     = [6, 9]"
proof -
  have h1: "open_decoder (file_io [[1, 5], [2, 7]]) ''a.wav'' True
      = Inr (frames_decoder [[1, 5], [2, 7]] 2)"
    by (simp add: open_decoder_def file_io_def)
  have h2: "rad_error (read_audio_data real_ops (file_io [[1, 5], [2, 7]]) ''a.wav'' [] [] True)
      = None"
    by (simp add: example_run)
  have h3: "stereo_buffer real_ops (frames_decoder [[1, 5], [2, 7]] 2) [] = [1, 5, 2, 7]"
    by (simp add: stereo_buffer_def frames_decoder_def Let_def resize_def store_def
        real_ops_def eval_nat_numeral)
  have h4: "read_audio_data real_ops (file_io [[1, 5], [2, 7]]) ''a.wav'' [] [] True
      = \<lparr> rad_error = None, rad_pcmf32 = [6, 9], rad_pcmf32s = [[1, 2], [5, 7]] \<rparr>"
    by (simp add: example_run)
  show ?thesis
    using stereo_demultiplex [OF h1 h2] h1 h3 h4 by simp
qed

text \<open>
  Claim C3, as stated: a read that delivers fewer frames than the length query
  announced is never reported as success. It fails on a file that announces four
  frames and delivers two while the read returns \<^verbatim>\<open>MA_SUCCESS\<close>: only the result
  code is tested, \<^verbatim>\<open>frames_read\<close> is never compared with \<^verbatim>\<open>frame_count\<close>, and the
  function returns true with a buffer of four samples of which two were read.
\<close>

theorem partial_read_accepted_counterexample:
  "snd (snd (ma_decoder_read_pcm_frames (short_decoder MA_SUCCESS MA_SUCCESS) 4)) = 2
   \<and> snd (ma_decoder_get_length_in_pcm_frames (short_decoder MA_SUCCESS MA_SUCCESS)) = 4
   \<and> read_audio_data real_ops (short_io MA_SUCCESS MA_SUCCESS) ''cut.wav'' [] [] False
     = \<lparr> rad_error = None, rad_pcmf32 = [1, 2, 0, 0], rad_pcmf32s = [] \<rparr>"
  by (simp add: example_run)

text \<open>
  Claim C3, amended: once the decoder is open, \<^verbatim>\<open>read_audio_data\<close> returns false
  whenever the length query or the read of the frames returns a result code other
  than \<^verbatim>\<open>MA_SUCCESS\<close>, and the failure it reports is that of the first of the two
  calls that failed.
\<close>

theorem decode_failure_reported:
  assumes "open_decoder io fname stereo = Inr d"
    and "fst (ma_decoder_get_length_in_pcm_frames d) \<noteq> MA_SUCCESS
       \<or> fst (ma_decoder_read_pcm_frames d (snd (ma_decoder_get_length_in_pcm_frames d)))
           \<noteq> MA_SUCCESS"
  shows "rad_error (read_audio_data F io fname pcmf32 pcmf32s stereo)
     = Some (if fst (ma_decoder_get_length_in_pcm_frames d) \<noteq> MA_SUCCESS
             then LengthFailed (fst (ma_decoder_get_length_in_pcm_frames d))
             else ReadFramesFailed
                    (fst (ma_decoder_read_pcm_frames d
                            (snd (ma_decoder_get_length_in_pcm_frames d)))))"
  using assms by (auto simp add: read_audio_data_def decode_frames_def Let_def split_beta)

theorem decode_failure_reported_witness:
  "open_decoder (short_io MA_SUCCESS (MA_ERROR (- 17))) ''cut.wav'' False
     = Inr (short_decoder MA_SUCCESS (MA_ERROR (- 17)))
   \<and> rad_error (read_audio_data real_ops (short_io MA_SUCCESS (MA_ERROR (- 17)))
        ''cut.wav'' [] [] False) = Some (ReadFramesFailed (MA_ERROR (- 17)))
   \<and> open_decoder (short_io (MA_ERROR (- 2)) MA_SUCCESS) ''cut.wav'' False
     = Inr (short_decoder (MA_ERROR (- 2)) MA_SUCCESS)
   \<and> rad_error (read_audio_data real_ops (short_io (MA_ERROR (- 2)) MA_SUCCESS)
        ''cut.wav'' [] [] False) = Some (LengthFailed (MA_ERROR (- 2)))"
proof -
  have h1: "open_decoder (short_io MA_SUCCESS (MA_ERROR (- 17))) ''cut.wav'' False
      = Inr (short_decoder MA_SUCCESS (MA_ERROR (- 17)))"
    by (simp add: open_decoder_def short_io_def)
  have h2: "open_decoder (short_io (MA_ERROR (- 2)) MA_SUCCESS) ''cut.wav'' False
      = Inr (short_decoder (MA_ERROR (- 2)) MA_SUCCESS)"
    by (simp add: open_decoder_def short_io_def)
  show ?thesis
    using decode_failure_reported [OF h1, of real_ops "[]" "[]"]
      decode_failure_reported [OF h2, of real_ops "[]" "[]"] h1 h2
    by (simp add: short_decoder_def)
qed

section \<open>Claims about the resamplers\<close>

text \<open>
  Claim C8. For every resampler instance, \<^verbatim>\<open>resample_audio\<close> maps an empty input to
  an empty output, and while \<^verbatim>\<open>g_resamplers_initialized\<close> is false it returns its
  input unchanged; in both cases the resampler is not touched and there is no
  failure to report.
\<close>

theorem resample_audio_pass_through:
  "(input = [] \<longrightarrow> resample_audio api F initialized resampler input = (resampler, []))
   \<and> (\<not> initialized \<longrightarrow> resample_audio api F initialized resampler input = (resampler, input))"
  by (simp add: resample_audio_def)

theorem resample_audio_pass_through_witness:
  "resample_audio copy_api real_ops True 3 [] = (3, [])
   \<and> resample_audio copy_api real_ops False 3 [1, 2] = (3, [1, 2])"
  using resample_audio_pass_through [of "[]" copy_api real_ops True 3]
    resample_audio_pass_through [of "[1, 2]" copy_api real_ops False 3]
  by simp

text \<open>
  Claim C9. \<^verbatim>\<open>init_resamplers\<close> on an initialized state returns true and leaves the
  three variables unchanged; hence a second call after a successful one is a no-op
  that returns true.
\<close>

theorem init_resamplers_idempotent:
  "(g_resamplers_initialized g \<longrightarrow> init_resamplers api g = (True, g))
   \<and> (fst (init_resamplers api g) \<longrightarrow>
        init_resamplers api (snd (init_resamplers api g)) = (True, snd (init_resamplers api g)))"
  by (simp add: init_resamplers_def Let_def)

theorem init_resamplers_idempotent_witness:
  "g_resamplers_initialized
     \<lparr> g_resampler_16k_to_48k = 7 :: nat, g_resampler_48k_to_16k = 9, g_resamplers_initialized = True \<rparr>
   \<and> init_resamplers copy_api
       \<lparr> g_resampler_16k_to_48k = 7, g_resampler_48k_to_16k = 9, g_resamplers_initialized = True \<rparr>
     = (True, \<lparr> g_resampler_16k_to_48k = 7, g_resampler_48k_to_16k = 9, g_resamplers_initialized = True \<rparr>)
   \<and> fst (init_resamplers copy_api
       \<lparr> g_resampler_16k_to_48k = 7, g_resampler_48k_to_16k = 9, g_resamplers_initialized = False \<rparr>)
   \<and> init_resamplers copy_api (snd (init_resamplers copy_api
       \<lparr> g_resampler_16k_to_48k = 7, g_resampler_48k_to_16k = 9, g_resamplers_initialized = False \<rparr>))
     = (True, \<lparr> g_resampler_16k_to_48k = 0, g_resampler_48k_to_16k = 0, g_resamplers_initialized = True \<rparr>)"
proof -
  have a: "init_resamplers copy_api
       \<lparr> g_resampler_16k_to_48k = 7, g_resampler_48k_to_16k = 9, g_resamplers_initialized = False \<rparr>
     = (True, \<lparr> g_resampler_16k_to_48k = 0, g_resampler_48k_to_16k = 0, g_resamplers_initialized = True \<rparr>)"
    by (simp add: init_resamplers_def copy_api_def Let_def)
  show ?thesis
    using init_resamplers_idempotent [of
        "\<lparr> g_resampler_16k_to_48k = 7, g_resampler_48k_to_16k = 9, g_resamplers_initialized = True \<rparr>"
        copy_api]
      init_resamplers_idempotent [of
        "\<lparr> g_resampler_16k_to_48k = 7, g_resampler_48k_to_16k = 9, g_resamplers_initialized = False \<rparr>"
        copy_api] a
    by simp
qed

section \<open>Claims about the frame denoiser\<close>

text \<open>
  Claim C7. Run \<^verbatim>\<open>denoise_audio\<close> with the denoising capability observed through
  \<open>logged\<close>, from an empty log. On an empty buffer nothing is handed to the
  capability. On a non-empty buffer the observed run returns the variables, the
  denoiser state and the buffer of the run without observer, and the log it
  returns shows every call of the operation: the frames handed to the capability
  are, in order, the full frames of the upsampled buffer, each sample multiplied
  by 32768, and nothing else, so the trailing partial frame is never handed over;
  the buffer returned is the downsampled one of the frames the capability left,
  each sample divided by 32768, followed by the trailing partial frame of the
  upsampled buffer unchanged. The same holds of the frame loop on every buffer
  \<open>buf\<close>. The full frames are consecutive and do not overlap: each has 480
  samples, the partial frame has fewer, and together they are the buffer.
\<close>

theorem denoise_audio_trace:
  "denoise_audio api F (logged rn) g (st, []) [] = (g, (st, []), [])
   \<and> (pcmf32 \<noteq> [] \<longrightarrow>
        (fst (denoise_audio api F (logged rn) g (st, []) pcmf32), fst (fst (snd (denoise_audio api F (logged rn) g (st, []) pcmf32))), snd (snd (denoise_audio api F (logged rn) g (st, []) pcmf32))) = denoise_audio api F rn g st pcmf32
      \<and> map fst (snd (fst (snd (denoise_audio api F (logged rn) g (st, []) pcmf32))))
          = map (map (\<lambda>x. f32_mul F x (f32_lit F 32768))) (full_frames (upsampled api F g pcmf32))
      \<and> snd (snd (denoise_audio api F (logged rn) g (st, []) pcmf32))
          = snd (resample_audio api F (g_resamplers_initialized g) (g_resampler_48k_to_16k g)
              (concat (map (scaled_back F) (snd (fst (snd (denoise_audio api F (logged rn) g (st, []) pcmf32)))))
               @ partial_frame (upsampled api F g pcmf32)))
      \<and> snd (snd (denoise_audio api F rn g st pcmf32))
          = snd (resample_audio api F (g_resamplers_initialized g) (g_resampler_48k_to_16k g)
              (snd (denoise_frames F rn st (upsampled api F g pcmf32)))))
   \<and> (fst (fst (denoise_frames F (logged rn) (st, []) buf)),
        snd (denoise_frames F (logged rn) (st, []) buf)) = denoise_frames F rn st buf
   \<and> map fst (snd (fst (denoise_frames F (logged rn) (st, []) buf)))
        = map (map (\<lambda>x. f32_mul F x (f32_lit F 32768))) (full_frames buf)
   \<and> snd (denoise_frames F (logged rn) (st, []) buf)
        = concat (map (scaled_back F) (snd (fst (denoise_frames F (logged rn) (st, []) buf))))
          @ partial_frame buf
   \<and> concat (full_frames buf) @ partial_frame buf = buf
   \<and> (\<forall>fr \<in> set (full_frames buf). length fr = RNNOISE_FRAME_SIZE)
   \<and> length (partial_frame buf) < RNNOISE_FRAME_SIZE"
proof -
  let ?D = "denoise_audio api F (logged rn) g (st, []) pcmf32"
  let ?up = "upsampled api F g pcmf32"
  let ?r = "denoise_frames F (logged rn) (st, []) ?up"
  have empty: "denoise_audio api F (logged rn) g (st, []) [] = (g, (st, []), [])"
    by (rule denoise_audio_empty)
  have run: "pcmf32 \<noteq> [] \<longrightarrow>
        (fst ?D, fst (fst (snd ?D)), snd (snd ?D)) = denoise_audio api F rn g st pcmf32
      \<and> map fst (snd (fst (snd ?D)))
          = map (map (\<lambda>x. f32_mul F x (f32_lit F 32768))) (full_frames ?up)
      \<and> snd (snd ?D)
          = snd (resample_audio api F (g_resamplers_initialized g) (g_resampler_48k_to_16k g)
              (concat (map (scaled_back F) (snd (fst (snd ?D)))) @ partial_frame ?up))
      \<and> snd (snd (denoise_audio api F rn g st pcmf32))
          = snd (resample_audio api F (g_resamplers_initialized g) (g_resampler_48k_to_16k g)
              (snd (denoise_frames F rn st ?up)))"
  proof
    assume ne: "pcmf32 \<noteq> []"
    note l = denoise_audio_logged [OF ne, of api F rn g st]
    note f = denoise_frames_logged [of F rn st ?up]
    have log: "snd (fst (snd ?D)) = snd (fst ?r)"
      by (rule l(2))
    have c1: "(fst ?D, fst (fst (snd ?D)), snd (snd ?D)) = denoise_audio api F rn g st pcmf32"
      by (rule l(1))
    have c2: "map fst (snd (fst (snd ?D)))
          = map (map (\<lambda>x. f32_mul F x (f32_lit F 32768))) (full_frames ?up)"
      using f by (simp only: log)
    have "snd ?r = concat (map (scaled_back F) (snd (fst ?r))) @ partial_frame ?up"
      using f by (rule conjunct2 [THEN conjunct2])
    then have e: "snd ?r = concat (map (scaled_back F) (snd (fst (snd ?D)))) @ partial_frame ?up"
      by (simp only: log)
    have c3: "snd (snd ?D)
          = snd (resample_audio api F (g_resamplers_initialized g) (g_resampler_48k_to_16k g)
              (concat (map (scaled_back F) (snd (fst (snd ?D)))) @ partial_frame ?up))"
      using l(3) by (simp only: e [symmetric])
    have c4: "snd (snd (denoise_audio api F rn g st pcmf32))
          = snd (resample_audio api F (g_resamplers_initialized g) (g_resampler_48k_to_16k g)
              (snd (denoise_frames F rn st ?up)))"
      using denoise_audio_output [OF ne, of api F rn g st] by (simp only: upsampled_def)
    from c1 c2 c3 c4 show "(fst ?D, fst (fst (snd ?D)), snd (snd ?D)) = denoise_audio api F rn g st pcmf32
      \<and> map fst (snd (fst (snd ?D)))
          = map (map (\<lambda>x. f32_mul F x (f32_lit F 32768))) (full_frames ?up)
      \<and> snd (snd ?D)
          = snd (resample_audio api F (g_resamplers_initialized g) (g_resampler_48k_to_16k g)
              (concat (map (scaled_back F) (snd (fst (snd ?D)))) @ partial_frame ?up))
      \<and> snd (snd (denoise_audio api F rn g st pcmf32))
          = snd (resample_audio api F (g_resamplers_initialized g) (g_resampler_48k_to_16k g)
              (snd (denoise_frames F rn st ?up)))"
      by (intro conjI)
  qed
  note f = denoise_frames_logged [of F rn st buf]
  have b: "(fst (fst (denoise_frames F (logged rn) (st, []) buf)),
        snd (denoise_frames F (logged rn) (st, []) buf)) = denoise_frames F rn st buf"
    using f by (rule conjunct1)
  have c: "map fst (snd (fst (denoise_frames F (logged rn) (st, []) buf)))
        = map (map (\<lambda>x. f32_mul F x (f32_lit F 32768))) (full_frames buf)"
    using f by (rule conjunct2 [THEN conjunct1])
  have d: "snd (denoise_frames F (logged rn) (st, []) buf)
        = concat (map (scaled_back F) (snd (fst (denoise_frames F (logged rn) (st, []) buf))))
          @ partial_frame buf"
    using f by (rule conjunct2 [THEN conjunct2])
  have e: "\<forall>fr \<in> set (full_frames buf). length fr = RNNOISE_FRAME_SIZE"
    by (rule ballI) (rule full_frames_length)
  note h = concat_full_frames [of buf] and i = partial_frame_length [of buf]
  from empty run b c d h e i show ?thesis
    by (intro conjI)
qed

theorem denoise_audio_trace_witness:
  "denoise_audio copy_api real_ops (logged halve)
      \<lparr> g_resampler_16k_to_48k = 0, g_resampler_48k_to_16k = 0,
        g_resamplers_initialized = True \<rparr> ((), []) []
     = (\<lparr> g_resampler_16k_to_48k = 0, g_resampler_48k_to_16k = 0,
          g_resamplers_initialized = True \<rparr>, ((), []), [])
   \<and> replicate 480 (1 / 2) @ [1 / 4] \<noteq> ([] :: real list)
   \<and> map fst (snd (fst (snd (denoise_audio copy_api real_ops (logged halve)
        \<lparr> g_resampler_16k_to_48k = 0, g_resampler_48k_to_16k = 0,
          g_resamplers_initialized = True \<rparr> ((), []) (replicate 480 (1 / 2) @ [1 / 4])))))
      = [replicate 480 16384]
   \<and> snd (snd (denoise_audio copy_api real_ops (logged halve)
        \<lparr> g_resampler_16k_to_48k = 0, g_resampler_48k_to_16k = 0,
          g_resamplers_initialized = True \<rparr> ((), []) (replicate 480 (1 / 2) @ [1 / 4])))
      = replicate 480 (1 / 4) @ [1 / 4]
   \<and> snd (snd (denoise_audio copy_api real_ops halve
        \<lparr> g_resampler_16k_to_48k = 0, g_resampler_48k_to_16k = 0,
          g_resamplers_initialized = True \<rparr> () (replicate 480 (1 / 2) @ [1 / 4])))
      = replicate 480 (1 / 4) @ [1 / 4]
   \<and> map fst (snd (fst (denoise_frames real_ops (logged halve) ((), [])
        (replicate 480 (1 / 2) @ [1 / 4])))) = [replicate 480 16384]
   \<and> snd (denoise_frames real_ops (logged halve) ((), []) (replicate 480 (1 / 2) @ [1 / 4]))
      = replicate 480 (1 / 4) @ [1 / 4]
   \<and> full_frames (replicate 480 (1 / 2) @ [1 / 4 :: real]) = [replicate 480 (1 / 2)]
   \<and> partial_frame (replicate 480 (1 / 2) @ [1 / 4 :: real]) = [1 / 4]"
proof -
  let ?pcm = "replicate 480 (1 / 2) @ [1 / 4 :: real]"
  let ?g = "\<lparr> g_resampler_16k_to_48k = 0 :: nat, g_resampler_48k_to_16k = 0,
              g_resamplers_initialized = True \<rparr>"
  let ?r = "denoise_frames real_ops (logged halve) ((), []) ?pcm"
  let ?D = "denoise_audio copy_api real_ops (logged halve) ?g ((), []) ?pcm"
  note t = denoise_audio_trace [of copy_api real_ops halve ?g "()" ?pcm ?pcm]
  have ne: "?pcm \<noteq> []"
    by simp
  have up: "upsampled copy_api real_ops ?g ?pcm = ?pcm"
    by (simp add: upsampled_def copy_run)
  from t have z: "denoise_audio copy_api real_ops (logged halve) ?g ((), []) [] = (?g, ((), []), [])"
    by (rule conjunct1)
  note run = t [THEN conjunct2, THEN conjunct1, THEN mp, OF ne]
  from run have "snd (snd (denoise_audio copy_api real_ops halve ?g () ?pcm))
      = snd (resample_audio copy_api real_ops (g_resamplers_initialized ?g)
          (g_resampler_48k_to_16k ?g)
          (snd (denoise_frames real_ops halve () (upsampled copy_api real_ops ?g ?pcm))))"
    by (rule conjunct2 [THEN conjunct2, THEN conjunct2])
  then have a: "snd (snd (denoise_audio copy_api real_ops halve ?g () ?pcm))
      = replicate 480 (1 / 4) @ [1 / 4]"
    by (simp add: up copy_run halve_run)
  from run have "(fst ?D, fst (fst (snd ?D)), snd (snd ?D))
      = denoise_audio copy_api real_ops halve ?g () ?pcm"
    by (rule conjunct1)
  then have "snd (snd ?D) = snd (snd (denoise_audio copy_api real_ops halve ?g () ?pcm))"
    by (metis snd_conv)
  with a have a': "snd (snd ?D) = replicate 480 (1 / 4) @ [1 / 4]"
    by simp
  from run have "map fst (snd (fst (snd ?D)))
      = map (map (\<lambda>x. f32_mul real_ops x (f32_lit real_ops 32768)))
          (full_frames (upsampled copy_api real_ops ?g ?pcm))"
    by (rule conjunct2 [THEN conjunct1])
  then have "map fst (snd (fst (snd ?D)))
      = map (map (\<lambda>x. f32_mul real_ops x (f32_lit real_ops 32768))) (full_frames ?pcm)"
    by (simp only: up)
  then have l: "map fst (snd (fst (snd ?D))) = [replicate 480 16384]"
    by (simp add: example_frames real_ops_def)
  from t have "(fst (fst ?r), snd ?r) = denoise_frames real_ops halve () ?pcm"
    by (rule conjunct2 [THEN conjunct2, THEN conjunct1])
  then have b: "snd ?r = replicate 480 (1 / 4) @ [1 / 4]"
    by (simp add: halve_run)
  from t have "map fst (snd (fst ?r))
      = map (map (\<lambda>x. f32_mul real_ops x (f32_lit real_ops 32768))) (full_frames ?pcm)"
    by (rule conjunct2 [THEN conjunct2, THEN conjunct2, THEN conjunct1])
  then have c: "map fst (snd (fst ?r)) = [replicate 480 16384]"
    by (simp add: example_frames real_ops_def)
  note e = example_frames(1) [of "1 / 2" "1 / 4 :: real"]
  from z ne l a' a c b e example_frames(2) [of "1 / 2" "1 / 4 :: real"] show ?thesis
    by (intro conjI)
qed

end
